theory Spec2Isabelle
  imports Complex_Main "HOL-Library.Word"
begin

unbundle bit_operations_syntax

section \<open>Text\<close>

text \<open>
  A Python \<open>str\<close> is represented by its UTF-8 encoding, a \<open>string\<close> of bytes, so that
  \<open>s.encode("utf-8")\<close> is the identity. \<open>str.strip()\<close> removes the characters for
  which \<open>str.isspace()\<close> holds from both ends: U+0009..U+000D, U+001C..U+0020, U+0085,
  U+00A0, U+1680, U+2000..U+200A, U+2028, U+2029, U+202F, U+205F and U+3000. On the
  encoding these are one, two or three bytes.
\<close>

definition space1 :: "char \<Rightarrow> bool" where
  "space1 a = (let n = (of_char a :: nat) in (9 \<le> n \<and> n \<le> 13) \<or> (28 \<le> n \<and> n \<le> 32))"

definition space2 :: "char \<Rightarrow> char \<Rightarrow> bool" where
  "space2 a b = ((of_char a :: nat) = 0xC2 \<and> ((of_char b :: nat) = 0x85 \<or> (of_char b :: nat) = 0xA0))"

definition space3 :: "char \<Rightarrow> char \<Rightarrow> char \<Rightarrow> bool" where
  "space3 a b c =
     (let x = (of_char a :: nat); y = (of_char b :: nat); z = (of_char c :: nat)
      in (x = 0xE1 \<and> y = 0x9A \<and> z = 0x80)
       \<or> (x = 0xE2 \<and> y = 0x80 \<and> ((0x80 \<le> z \<and> z \<le> 0x8A) \<or> z = 0xA8 \<or> z = 0xA9 \<or> z = 0xAF))
       \<or> (x = 0xE2 \<and> y = 0x81 \<and> z = 0x9F)
       \<or> (x = 0xE3 \<and> y = 0x80 \<and> z = 0x80))"

fun lstrip :: "string \<Rightarrow> string" where
  "lstrip (a # b # c # s) =
     (if space1 a then lstrip (b # c # s)
      else if space2 a b then lstrip (c # s)
      else if space3 a b c then lstrip s
      else a # b # c # s)"
| "lstrip [a, b] = (if space1 a then lstrip [b] else if space2 a b then [] else [a, b])"
| "lstrip [a] = (if space1 a then [] else [a])"
| "lstrip [] = []"

text \<open>The same from the right end, on the reversed byte sequence.\<close>

fun rstrip_rev :: "string \<Rightarrow> string" where
  "rstrip_rev (c # b # a # s) =
     (if space1 c then rstrip_rev (b # a # s)
      else if space2 b c then rstrip_rev (a # s)
      else if space3 a b c then rstrip_rev s
      else c # b # a # s)"
| "rstrip_rev [c, b] = (if space1 c then rstrip_rev [b] else if space2 b c then [] else [c, b])"
| "rstrip_rev [c] = (if space1 c then [] else [c])"
| "rstrip_rev [] = []"

definition rstrip :: "string \<Rightarrow> string" where
  "rstrip s = rev (rstrip_rev (rev s))"

definition strip :: "string \<Rightarrow> string" where
  "strip s = rstrip (lstrip s)"

section \<open>BLAKE2b\<close>

text \<open>
  \<open>hashlib.blake2b(data, digest_size=32)\<close> as RFC 7693 defines it, unkeyed: the state is
  eight 64-bit words, each 128-byte block is compressed by twelve rounds of the mixing
  function \<open>G\<close>, the byte counter is 128 bits wide.
\<close>

type_synonym u64 = "64 word"

definition rotr64 :: "nat \<Rightarrow> u64 \<Rightarrow> u64" where
  "rotr64 n x = drop_bit n x OR push_bit (64 - n) x"

definition blake2b_iv :: "u64 list" where
  "blake2b_iv =
     [0x6a09e667f3bcc908, 0xbb67ae8584caa73b, 0x3c6ef372fe94f82b, 0xa54ff53a5f1d36f1,
      0x510e527fade682d1, 0x9b05688c2b3e6c1f, 0x1f83d9abfb41bd6b, 0x5be0cd19137e2179]"

definition blake2b_sigma :: "nat list list" where
  "blake2b_sigma =
     [[0, 1, 2, 3, 4, 5, 6, 7, 8, 9, 10, 11, 12, 13, 14, 15],
      [14, 10, 4, 8, 9, 15, 13, 6, 1, 12, 0, 2, 11, 7, 5, 3],
      [11, 8, 12, 0, 5, 2, 15, 13, 10, 14, 3, 6, 7, 1, 9, 4],
      [7, 9, 3, 1, 13, 12, 11, 14, 2, 6, 5, 10, 4, 0, 15, 8],
      [9, 0, 5, 7, 2, 4, 10, 15, 14, 1, 11, 12, 6, 8, 3, 13],
      [2, 12, 6, 10, 0, 11, 8, 3, 4, 13, 7, 5, 15, 14, 1, 9],
      [12, 5, 1, 15, 14, 13, 4, 10, 0, 7, 6, 3, 9, 2, 8, 11],
      [13, 11, 7, 14, 12, 1, 3, 9, 5, 0, 15, 4, 8, 6, 2, 10],
      [6, 15, 14, 9, 11, 3, 0, 8, 12, 2, 13, 7, 1, 4, 10, 5],
      [10, 2, 8, 4, 7, 6, 1, 5, 15, 11, 9, 14, 3, 12, 13, 0]]"

definition blake2b_G :: "u64 list \<Rightarrow> nat \<Rightarrow> nat \<Rightarrow> nat \<Rightarrow> nat \<Rightarrow> u64 \<Rightarrow> u64 \<Rightarrow> u64 list" where
  "blake2b_G v a b c d x y =
     (let va = v ! a + v ! b + x;
          vd = rotr64 32 (v ! d XOR va);
          vc = v ! c + vd;
          vb = rotr64 24 (v ! b XOR vc);
          va2 = va + vb + y;
          vd2 = rotr64 16 (vd XOR va2);
          vc2 = vc + vd2;
          vb2 = rotr64 63 (vb XOR vc2)
      in v[a := va2, b := vb2, c := vc2, d := vd2])"

definition blake2b_round :: "u64 list \<Rightarrow> u64 list \<Rightarrow> nat \<Rightarrow> u64 list" where
  "blake2b_round m v i =
     (let s = blake2b_sigma ! (i mod 10);
          v = blake2b_G v 0 4 8 12 (m ! (s ! 0)) (m ! (s ! 1));
          v = blake2b_G v 1 5 9 13 (m ! (s ! 2)) (m ! (s ! 3));
          v = blake2b_G v 2 6 10 14 (m ! (s ! 4)) (m ! (s ! 5));
          v = blake2b_G v 3 7 11 15 (m ! (s ! 6)) (m ! (s ! 7));
          v = blake2b_G v 0 5 10 15 (m ! (s ! 8)) (m ! (s ! 9));
          v = blake2b_G v 1 6 11 12 (m ! (s ! 10)) (m ! (s ! 11));
          v = blake2b_G v 2 7 8 13 (m ! (s ! 12)) (m ! (s ! 13));
          v = blake2b_G v 3 4 9 14 (m ! (s ! 14)) (m ! (s ! 15))
      in v)"

text \<open>Little-endian words of a block; a short block is padded with zero bytes.\<close>

fun le_word :: "string \<Rightarrow> u64" where
  "le_word [] = 0"
| "le_word (c # cs) = of_char c + push_bit 8 (le_word cs)"

fun le_words :: "nat \<Rightarrow> string \<Rightarrow> u64 list" where
  "le_words 0 bs = []"
| "le_words (Suc n) bs = le_word (take 8 bs) # le_words n (drop 8 bs)"

definition blake2b_init :: "u64 list \<Rightarrow> u64 list \<Rightarrow> 128 word \<Rightarrow> bool \<Rightarrow> u64 list" where
  "blake2b_init h iv t final =
     (let v = h @ iv;
          v = v[12 := v ! 12 XOR ucast t];
          v = v[13 := v ! 13 XOR ucast (drop_bit 64 t)]
      in if final then v[14 := NOT (v ! 14)] else v)"

definition blake2b_F :: "u64 list \<Rightarrow> string \<Rightarrow> 128 word \<Rightarrow> bool \<Rightarrow> u64 list" where
  "blake2b_F h block t final =
     (let m = le_words 16 block;
          v = foldl (blake2b_round m) (blake2b_init h blake2b_iv t final) [0..<12]
      in map (\<lambda>i. h ! i XOR v ! i XOR v ! (i + 8)) [0..<8])"

function blake2b_blocks :: "u64 list \<Rightarrow> 128 word \<Rightarrow> string \<Rightarrow> u64 list" where
  "blake2b_blocks h t bs =
     (if length bs \<le> 128 then blake2b_F h bs (t + word_of_nat (length bs)) True
      else blake2b_blocks (blake2b_F h (take 128 bs) (t + 128) False) (t + 128) (drop 128 bs))"
  by pat_completeness auto
termination
  by (relation "measure (\<lambda>(h, t, bs). length bs)") auto

declare blake2b_blocks.simps [simp del]

text \<open>The state after the last block; the 32-byte digest is its first four words.\<close>

definition blake2b_256 :: "string \<Rightarrow> u64 list" where
  "blake2b_256 bs = blake2b_blocks (blake2b_iv[0 := blake2b_iv ! 0 XOR 0x01010020]) 0 bs"

section \<open>Values, exceptions and the world outside\<close>

text \<open>
  A payload is what \<open>json.loads\<close> returns: a JSON value. A Python \<open>dict\<close> keeps its
  insertion order, so an object is an association list. \<open>truthy\<close> is Python's truth
  value of such a value, as used by \<open>if exact:\<close>.
\<close>

datatype json =
    JNull
  | JBool bool
  | JNum real
  | JStr string
  | JArr "json list"
  | JObj "(string \<times> json) list"

fun truthy :: "json \<Rightarrow> bool" where
  "truthy JNull = False"
| "truthy (JBool b) = b"
| "truthy (JNum x) = (x \<noteq> 0)"
| "truthy (JStr s) = (s \<noteq> [])"
| "truthy (JArr xs) = (xs \<noteq> [])"
| "truthy (JObj kvs) = (kvs \<noteq> [])"

datatype exn =
    ValueError_dim nat int
  | ConnectionError
  | ResponseError string
  | OperationalError
  | RequestException
  | ModelError
  | JSONDecodeError
  | UnicodeDecodeError
  | IndexError
  | TypeError
  | AttributeError
  | ValueError

type_synonym embedding = "real list"

text \<open>A reply of the Redis server as the client hands it over with \<open>decode_responses=False\<close>.\<close>

datatype resp = RNil | RInt int | RBulk string | RArr "resp list"

record SearxngResult =
  title :: string
  url :: string
  content :: string
  engine :: "string option"
  score :: "real option"

record SearxngSearchResponse =
  resp_query :: string
  results :: "SearxngResult list"

text \<open>
  What the code calls and does not define is a parameter, collected in \<open>env\<close>:
  \<^item> \<open>st_load name\<close> is the exception raised by importing and constructing
    \<open>SentenceTransformer(name)\<close>, if any; \<open>st_encode name text\<close> is what \<open>encode\<close>
    returns or raises;
  \<^item> \<open>json_dumps\<close> is \<open>json.dumps(_, ensure_ascii=False)\<close>, \<open>json_loads\<close> is
    \<open>json.loads\<close>, \<open>float_of_str\<close> is \<open>float\<close> on text, \<open>str_of_float\<close> is \<open>str\<close> on a
    float, \<open>tobytes\<close> is \<open>ndarray.tobytes\<close>, \<open>sha256_hex\<close> is
    \<open>hashlib.sha256(_).hexdigest()\<close>, \<open>clock\<close> is \<open>time.time()\<close>;
  \<^item> \<open>redis_up\<close> and \<open>sqlite_up\<close> say whether the server answers and the database
    file opens; \<open>ft_search hashes index q vec k\<close> is the server's answer to
    \<open>FT.SEARCH\<close>, an error reply when RediSearch or the index is missing;
  \<^item> \<open>searxng query\<close> is what \<open>SearxngClient.search\<close> returns or raises.
\<close>

record env =
  st_load :: "string \<Rightarrow> exn option"
  st_encode :: "string \<Rightarrow> string \<Rightarrow> exn + embedding"
  json_dumps :: "json \<Rightarrow> string"
  json_loads :: "string \<Rightarrow> exn + json"
  float_of_str :: "string \<Rightarrow> exn + real"
  str_of_float :: "real \<Rightarrow> string"
  tobytes :: "embedding \<Rightarrow> string"
  sha256_hex :: "string \<Rightarrow> string"
  clock :: real
  redis_up :: bool
  ft_search :: "(string \<rightharpoonup> (string \<rightharpoonup> string)) \<Rightarrow> string \<Rightarrow> string \<Rightarrow> nat \<Rightarrow> exn + resp"
  sqlite_up :: bool
  searxng :: "string \<Rightarrow> exn + SearxngSearchResponse"

text \<open>
  The mutable state: the hashes of the Redis server with their time to live, the rows of
  the SQLite table \<open>searx_cache\<close> (\<open>query\<close> is the primary key), and the commands and
  requests sent so far, oldest first.
\<close>

datatype call =
    HGETALL string
  | HSET string
  | EXPIRE string int
  | FT_SEARCH string nat
  | SQL_SELECT string
  | SQL_INSERT string
  | HTTP_GET string

record world =
  hashes :: "string \<rightharpoonup> (string \<rightharpoonup> string)"
  expiry :: "string \<rightharpoonup> int"
  rows :: "string \<rightharpoonup> (string \<times> real)"
  trace :: "call list"

text \<open>
  \<open>bytes.decode("utf-8")\<close> is strict: it raises unless the bytes are well-formed UTF-8
  (no overlong forms, no surrogates, nothing above U+10FFFF).
\<close>

definition cont_byte :: "char \<Rightarrow> bool" where
  "cont_byte b = (0x80 \<le> (of_char b :: nat) \<and> (of_char b :: nat) \<le> 0xBF)"

definition in_range :: "nat \<Rightarrow> nat \<Rightarrow> char \<Rightarrow> bool" where
  "in_range lo hi b = (lo \<le> (of_char b :: nat) \<and> (of_char b :: nat) \<le> hi)"

fun utf8_valid :: "string \<Rightarrow> bool" where
  "utf8_valid [] = True"
| "utf8_valid (a # s) =
     (if in_range 0x00 0x7F a then utf8_valid s
      else if in_range 0xC2 0xDF a then
        (case s of b # s' \<Rightarrow> cont_byte b \<and> utf8_valid s' | _ \<Rightarrow> False)
      else if in_range 0xE0 0xEF a then
        (case s of
           b # c # s' \<Rightarrow>
             (if in_range 0xE0 0xE0 a then in_range 0xA0 0xBF b
              else if in_range 0xED 0xED a then in_range 0x80 0x9F b
              else cont_byte b)
             \<and> cont_byte c \<and> utf8_valid s'
         | _ \<Rightarrow> False)
      else if in_range 0xF0 0xF4 a then
        (case s of
           b # c # d # s' \<Rightarrow>
             (if in_range 0xF0 0xF0 a then in_range 0x90 0xBF b
              else if in_range 0xF4 0xF4 a then in_range 0x80 0x8F b
              else cont_byte b)
             \<and> cont_byte c \<and> cont_byte d \<and> utf8_valid s'
         | _ \<Rightarrow> False)
      else False)"

definition decode_utf8 :: "string \<Rightarrow> exn + string" where
  "decode_utf8 b = (if utf8_valid b then Inr b else Inl UnicodeDecodeError)"

section \<open>Embedder\<close>

text \<open>
  An embedding is a float32 array. Its entries are modelled as the real numbers they
  denote, and every float32 operation of \<open>_hash_embed\<close> (the addition \<open>v[idx] += sign\<close>,
  the square root inside \<open>np.linalg.norm\<close>, the division \<open>v /= norm\<close>) rounds its exact
  result to the nearest float32, ties to even. The rounding \<open>f32\<close> has the 24-bit
  significand of IEEE binary32 and no bound on the exponent: overflow and subnormal
  numbers are not modelled, and none of the values computed here comes near them.
\<close>

definition round_even :: "real \<Rightarrow> int" where
  "round_even y =
     (let f = \<lfloor>y\<rfloor>
      in if y - of_int f < 1 / 2 then f
         else if 1 / 2 < y - of_int f then f + 1
         else if even f then f else f + 1)"

definition f32 :: "real \<Rightarrow> real" where
  "f32 x =
     (if x = 0 then 0
      else let ulp = 2 powr of_int (\<lfloor>log 2 \<bar>x\<bar>\<rfloor> - 23)
           in of_int (round_even (x / ulp)) * ulp)"

text \<open>The Euclidean norm of the numbers in the array, in exact arithmetic.\<close>

definition l2norm :: "embedding \<Rightarrow> real" where
  "l2norm v = sqrt (\<Sum>x\<leftarrow>v. x * x)"

text \<open>
  \<open>float(np.linalg.norm(v))\<close> on a float32 array is \<open>sqrt(dot(v, v))\<close> in float32. The dot
  product is modelled as the exact sum rounded once; the entries are integers, so every
  order of summation gives that sum exactly as long as it stays below \<open>2^24\<close>.
\<close>

definition norm_f32 :: "embedding \<Rightarrow> real" where
  "norm_f32 v = f32 (sqrt (f32 (\<Sum>x\<leftarrow>v. x * x)))"

text \<open>
  \<open>seed = int.from_bytes(h[:8], byteorder="little")\<close>: the first eight digest bytes are
  the first state word.
\<close>

definition blake2b_seed :: "string \<Rightarrow> u64" where
  "blake2b_seed data = blake2b_256 data ! 0"

text \<open>The \<open>for i, b in enumerate(data)\<close> loop of \<open>_hash_embed\<close>.\<close>

fun hash_loop :: "nat \<Rightarrow> string \<Rightarrow> u64 \<Rightarrow> embedding \<Rightarrow> embedding" where
  "hash_loop n [] seed v = v"
| "hash_loop n (b # bs) seed v =
     (let seed = seed * 6364136223846793005 + 1 + of_char b;
          idx = unat seed mod n;
          sign = (if drop_bit 63 seed = 0 then 1 else - 1)
      in hash_loop n bs seed (v[idx := f32 (v ! idx + sign)]))"

definition hash_embed :: "string \<Rightarrow> int \<Rightarrow> embedding" where
  "hash_embed text dim_n =
     (let n = nat (if dim_n > 0 then dim_n else 384);
          v = replicate n 0;
          s = strip text
      in if s = [] then v
         else
           let seed = blake2b_seed s;
               v = hash_loop n s seed v;
               norm = norm_f32 v
           in if norm > 0 then map (\<lambda>x. f32 (x / norm)) v else v)"

text \<open>
  The array \<open>v\<close> of \<open>_hash_embed\<close> when its loop has ended, before the division: every
  byte of the trimmed text has added \<open>+1\<close> or \<open>-1\<close> at its index.
\<close>

definition hash_accumulate :: "string \<Rightarrow> int \<Rightarrow> embedding" where
  "hash_accumulate text dim_n =
     (let n = nat (if dim_n > 0 then dim_n else 384);
          s = strip text
      in hash_loop n s (blake2b_seed s) (replicate n 0))"

text \<open>The \<open>Embedder\<close> dataclass; \<open>model_loaded\<close> stands for \<open>self._model is not None\<close>.\<close>

record Embedder =
  mode :: string
  model_name :: string
  dim_n :: int
  model_loaded :: bool

definition Embedder_st_embed :: "env \<Rightarrow> Embedder \<Rightarrow> string \<Rightarrow> (exn + embedding) \<times> Embedder" where
  "Embedder_st_embed env e text =
     (if \<not> model_loaded e then
        (case st_load env (model_name e) of
           Some err \<Rightarrow> (Inl err, e)
         | None \<Rightarrow> (st_encode env (model_name e) text, e\<lparr>model_loaded := True\<rparr>))
      else (st_encode env (model_name e) text, e))"

definition Embedder_embed :: "env \<Rightarrow> Embedder \<Rightarrow> string \<Rightarrow> (exn + embedding) \<times> Embedder" where
  "Embedder_embed env e text =
     (if mode e = ''hash'' then (Inr (hash_embed text (dim_n e)), e)
      else if mode e = ''st'' \<or> mode e = ''sentence-transformers'' then Embedder_st_embed env e text
      else
        (case Embedder_st_embed env e text of
           (Inr v, e') \<Rightarrow> (Inr v, e')
         | (Inl err, e') \<Rightarrow> (Inr (hash_embed text (dim_n e)), e')))"

section \<open>RedisVectorCache\<close>

text \<open>
  The commands the client sends. A server that does not answer makes every command raise;
  \<open>HSET\<close> with a mapping sets the given fields and leaves the others; \<open>EXPIRE\<close> with a
  time that is not positive deletes the key.
\<close>

definition redis_hgetall :: "env \<Rightarrow> world \<Rightarrow> string \<Rightarrow> (exn + (string \<rightharpoonup> string)) \<times> world" where
  "redis_hgetall env w key =
     (let w' = w\<lparr>trace := trace w @ [HGETALL key]\<rparr>
      in if redis_up env
         then (Inr (case hashes w key of None \<Rightarrow> Map.empty | Some h \<Rightarrow> h), w')
         else (Inl ConnectionError, w'))"

definition redis_hset :: "env \<Rightarrow> world \<Rightarrow> string \<Rightarrow> (string \<times> string) list \<Rightarrow> (exn + unit) \<times> world" where
  "redis_hset env w key mapping =
     (let w' = w\<lparr>trace := trace w @ [HSET key]\<rparr>
      in if redis_up env
         then (Inr (),
               w'\<lparr>hashes := (hashes w)(key \<mapsto>
                     (case hashes w key of None \<Rightarrow> Map.empty | Some h \<Rightarrow> h) ++ map_of (rev mapping))\<rparr>)
         else (Inl ConnectionError, w'))"

definition redis_expire :: "env \<Rightarrow> world \<Rightarrow> string \<Rightarrow> int \<Rightarrow> (exn + unit) \<times> world" where
  "redis_expire env w key seconds =
     (let w' = w\<lparr>trace := trace w @ [EXPIRE key seconds]\<rparr>
      in if redis_up env
         then (Inr (),
               if hashes w key = None then w'
               else if seconds \<le> 0
               then w'\<lparr>hashes := (hashes w)(key := None), expiry := (expiry w)(key := None)\<rparr>
               else w'\<lparr>expiry := (expiry w)(key \<mapsto> seconds)\<rparr>)
         else (Inl ConnectionError, w'))"

definition redis_ft_search :: "env \<Rightarrow> world \<Rightarrow> string \<Rightarrow> string \<Rightarrow> nat \<Rightarrow> (exn + resp) \<times> world" where
  "redis_ft_search env w index vec k =
     (let w' = w\<lparr>trace := trace w @ [FT_SEARCH index k]\<rparr>
      in if redis_up env then (ft_search env (hashes w) index vec k, w')
         else (Inl ConnectionError, w'))"

record RedisVectorCache =
  index_name :: string
  key_prefix :: string
  ttl_seconds :: int
  vector_dim :: int

record RedisSemanticHit =
  hit_query :: string
  hit_payload :: json
  hit_score :: real

definition RedisVectorCache_make_key :: "RedisVectorCache \<Rightarrow> string \<Rightarrow> string" where
  "RedisVectorCache_make_key c item_id = key_prefix c @ item_id"

definition RedisVectorCache_stable_id :: "env \<Rightarrow> string \<Rightarrow> string" where
  "RedisVectorCache_stable_id env query = sha256_hex env (strip query)"

text \<open>\<open>json.loads(b.decode("utf-8"))\<close>.\<close>

definition loads_bytes :: "env \<Rightarrow> string \<Rightarrow> exn + json" where
  "loads_bytes env b = (case decode_utf8 b of Inl e \<Rightarrow> Inl e | Inr s \<Rightarrow> json_loads env s)"

text \<open>\<open>float(b.decode("utf-8"))\<close>.\<close>

definition float_of_bytes :: "env \<Rightarrow> string \<Rightarrow> exn + real" where
  "float_of_bytes env b = (case decode_utf8 b of Inl e \<Rightarrow> Inl e | Inr s \<Rightarrow> float_of_str env s)"

text \<open>
  \<open>get_exact\<close> after \<open>hgetall\<close>: an empty answer, a missing or an empty \<open>payload_json\<close>
  field give \<open>None\<close>, anything else is decoded and parsed.
\<close>

definition payload_of_hash :: "env \<Rightarrow> (string \<rightharpoonup> string) \<Rightarrow> exn + json option" where
  "payload_of_hash env data =
     (if data = Map.empty then Inr None
      else
        (case data ''payload_json'' of
           None \<Rightarrow> Inr None
         | Some payload_json \<Rightarrow>
             if payload_json = [] then Inr None
             else
               (case loads_bytes env payload_json of
                  Inl e \<Rightarrow> Inl e
                | Inr payload \<Rightarrow> Inr (Some payload))))"

definition RedisVectorCache_get_exact ::
  "env \<Rightarrow> RedisVectorCache \<Rightarrow> world \<Rightarrow> string \<Rightarrow> (exn + json option) \<times> world" where
  "RedisVectorCache_get_exact env c w query =
     (let key = RedisVectorCache_make_key c (RedisVectorCache_stable_id env query)
      in case redis_hgetall env w key of
           (Inl e, w') \<Rightarrow> (Inl e, w')
         | (Inr data, w') \<Rightarrow> (payload_of_hash env data, w'))"

definition RedisVectorCache_set ::
  "env \<Rightarrow> RedisVectorCache \<Rightarrow> world \<Rightarrow> string \<Rightarrow> json \<Rightarrow> embedding \<Rightarrow> (exn + unit) \<times> world" where
  "RedisVectorCache_set env c w query payload embedding =
     (if int (length embedding) \<noteq> vector_dim c
      then (Inl (ValueError_dim (length embedding) (vector_dim c)), w)
      else
        let item_id = RedisVectorCache_stable_id env query;
            key = RedisVectorCache_make_key c item_id;
            now = clock env;
            mapping =
              [(''query'', query),
               (''payload_json'', json_dumps env payload),
               (''created_at'', str_of_float env now),
               (''embedding'', tobytes env embedding)]
        in case redis_hset env w key mapping of
             (Inl e, w') \<Rightarrow> (Inl e, w')
           | (Inr u, w') \<Rightarrow> redis_expire env w' key (ttl_seconds c))"

text \<open>
  The loop \<open>for j in range(0, len(fields), 2): field_map[fields[j]] = fields[j + 1]\<close>:
  an odd number of elements raises at the last one, a list is not hashable.
\<close>

fun field_map_of :: "resp list \<Rightarrow> (resp \<rightharpoonup> resp) \<Rightarrow> exn + (resp \<rightharpoonup> resp)" where
  "field_map_of [] m = Inr m"
| "field_map_of [k] m = Inl IndexError"
| "field_map_of (k # v # rest) m =
     (case k of RArr xs \<Rightarrow> Inl TypeError | _ \<Rightarrow> field_map_of rest (m(k \<mapsto> v)))"

text \<open>\<open>len(fields)\<close> and \<open>fields[j]\<close>: bytes are indexed as integers, anything else has no length.\<close>

definition fields_of :: "resp \<Rightarrow> exn + resp list" where
  "fields_of r =
     (case r of
        RArr xs \<Rightarrow> Inr xs
      | RBulk b \<Rightarrow> Inr (map (\<lambda>c. RInt (of_char c)) b)
      | _ \<Rightarrow> Inl TypeError)"

text \<open>\<open>x.decode("utf-8")\<close> on a value of the field map: only bytes have the method.\<close>

definition decode_resp :: "resp \<Rightarrow> exn + string" where
  "decode_resp r = (case r of RBulk b \<Rightarrow> decode_utf8 b | _ \<Rightarrow> Inl AttributeError)"

definition hit_of_fields :: "env \<Rightarrow> resp \<Rightarrow> exn + RedisSemanticHit" where
  "hit_of_fields env field_list =
     (case fields_of field_list of
        Inl e \<Rightarrow> Inl e
      | Inr fs \<Rightarrow>
          (case field_map_of fs Map.empty of
             Inl e \<Rightarrow> Inl e
           | Inr field_map \<Rightarrow>
               let query_b = (case field_map (RBulk ''query'') of None \<Rightarrow> RBulk [] | Some x \<Rightarrow> x);
                   payload_b = (case field_map (RBulk ''payload_json'') of None \<Rightarrow> RBulk ''{}'' | Some x \<Rightarrow> x);
                   score_b = (case field_map (RBulk ''score'') of None \<Rightarrow> RBulk ''0'' | Some x \<Rightarrow> x);
                   payload =
                     (case decode_resp payload_b of
                        Inl e \<Rightarrow> JObj []
                      | Inr s \<Rightarrow> (case json_loads env s of Inl e \<Rightarrow> JObj [] | Inr p \<Rightarrow> p));
                   score =
                     (case decode_resp score_b of
                        Inl e \<Rightarrow> 0
                      | Inr s \<Rightarrow> (case float_of_str env s of Inl e \<Rightarrow> 0 | Inr x \<Rightarrow> x))
               in case decode_resp query_b of
                    Inl e \<Rightarrow> Inl e
                  | Inr q \<Rightarrow> Inr \<lparr>hit_query = q, hit_payload = payload, hit_score = score\<rparr>))"

text \<open>The loop \<open>for i in range(1, len(res), 2): fields = res[i + 1]\<close>, on \<open>res[1:]\<close>.\<close>

fun hits_of :: "env \<Rightarrow> resp list \<Rightarrow> exn + RedisSemanticHit list" where
  "hits_of env [] = Inr []"
| "hits_of env [doc_id] = Inl IndexError"
| "hits_of env (doc_id # field_list # rest) =
     (case hit_of_fields env field_list of
        Inl e \<Rightarrow> Inl e
      | Inr h \<Rightarrow> (case hits_of env rest of Inl e \<Rightarrow> Inl e | Inr hs \<Rightarrow> Inr (h # hs)))"

text \<open>
  \<open>if not res or len(res) < 2: return hits\<close>, then the loop. An integer other than 0
  has no length. Of a bytes reply \<open>res[2]\<close> is out of range when there are two bytes, and
  otherwise an integer, which has no length.
\<close>

definition hits_of_reply :: "env \<Rightarrow> resp \<Rightarrow> exn + RedisSemanticHit list" where
  "hits_of_reply env res =
     (case res of
        RNil \<Rightarrow> Inr []
      | RInt n \<Rightarrow> if n = 0 then Inr [] else Inl TypeError
      | RBulk b \<Rightarrow> if length b < 2 then Inr [] else if length b = 2 then Inl IndexError else Inl TypeError
      | RArr xs \<Rightarrow> if length xs < 2 then Inr [] else hits_of env (tl xs))"

definition RedisVectorCache_search_similar ::
  "env \<Rightarrow> RedisVectorCache \<Rightarrow> world \<Rightarrow> embedding \<Rightarrow> nat \<Rightarrow> (exn + RedisSemanticHit list) \<times> world" where
  "RedisVectorCache_search_similar env c w embedding k =
     (if int (length embedding) \<noteq> vector_dim c
      then (Inl (ValueError_dim (length embedding) (vector_dim c)), w)
      else
        case redis_ft_search env w (index_name c) (tobytes env embedding) k of
          (Inl e, w') \<Rightarrow> (Inl e, w')
        | (Inr res, w') \<Rightarrow> (hits_of_reply env res, w'))"

section \<open>SqliteCache\<close>

record SqliteCacheItem =
  item_query :: string
  item_payload :: json
  created_at :: real

definition SqliteCache_get :: "env \<Rightarrow> world \<Rightarrow> string \<Rightarrow> (exn + SqliteCacheItem option) \<times> world" where
  "SqliteCache_get env w query =
     (let w' = w\<lparr>trace := trace w @ [SQL_SELECT query]\<rparr>
      in if \<not> sqlite_up env then (Inl OperationalError, w')
         else
           (case rows w query of
              None \<Rightarrow> (Inr None, w')
            | Some (payload_json, created) \<Rightarrow>
                (case json_loads env payload_json of
                   Inl e \<Rightarrow> (Inl e, w')
                 | Inr p \<Rightarrow>
                     (Inr (Some \<lparr>item_query = query, item_payload = p, created_at = created\<rparr>), w'))))"

definition SqliteCache_set :: "env \<Rightarrow> world \<Rightarrow> string \<Rightarrow> json \<Rightarrow> (exn + unit) \<times> world" where
  "SqliteCache_set env w query payload =
     (let now = clock env;
          w' = w\<lparr>trace := trace w @ [SQL_INSERT query]\<rparr>
      in if \<not> sqlite_up env then (Inl OperationalError, w')
         else (Inr (), w'\<lparr>rows := (rows w)(query \<mapsto> (json_dumps env payload, now))\<rparr>))"

section \<open>HybridSearchEngine\<close>

record SearchOutcome =
  query :: string
  source :: string
  payload :: json

text \<open>
  The engine holds its embedder and its Redis cache; the SearXNG client and the SQLite
  cache have no fields that matter here. The constructor gives the Redis cache the
  embedder's dimension. Its call of \<open>ensure_index\<close> writes no hash and its failure is
  absorbed; the index it may create is part of what \<open>ft_search\<close> answers.
\<close>

record HybridSearchEngine =
  embedder :: Embedder
  redis :: RedisVectorCache

definition HybridSearchEngine_init :: "Embedder \<Rightarrow> HybridSearchEngine" where
  "HybridSearchEngine_init e =
     \<lparr>embedder = e,
      redis = \<lparr>index_name = ''idx:searx_cache'', key_prefix = ''searx_cache:'',
               ttl_seconds = 2 * 60 * 60, vector_dim = dim_n e\<rparr>\<rparr>"

definition client_search :: "env \<Rightarrow> world \<Rightarrow> string \<Rightarrow> (exn + SearxngSearchResponse) \<times> world" where
  "client_search env w q = (searxng env q, w\<lparr>trace := trace w @ [HTTP_GET q]\<rparr>)"

definition result_json :: "SearxngResult \<Rightarrow> json" where
  "result_json r =
     JObj [(''title'', JStr (title r)),
           (''url'', JStr (url r)),
           (''content'', JStr (content r)),
           (''engine'', case engine r of None \<Rightarrow> JNull | Some e \<Rightarrow> JStr e),
           (''score'', case score r of None \<Rightarrow> JNull | Some x \<Rightarrow> JNum x)]"

definition payload_of :: "SearxngSearchResponse \<Rightarrow> json" where
  "payload_of r = JObj [(''query'', JStr (resp_query r)), (''results'', JArr (map result_json (results r)))]"

definition degraded :: "string \<Rightarrow> SearchOutcome" where
  "degraded q = \<lparr>query = q, source = ''degraded'', payload = JObj [(''results'', JArr [])]\<rparr>"

type_synonym search_result = "(exn + SearchOutcome) \<times> HybridSearchEngine \<times> world"

text \<open>
  Step 4 of \<open>search\<close>: the live request and the two writes, each in its own
  \<open>try\<close>. \<open>embedding\<close> is \<open>None\<close> when step 2 raised before it was assigned.
\<close>

definition search_live :: "env \<Rightarrow> HybridSearchEngine \<Rightarrow> world \<Rightarrow> string \<Rightarrow> embedding option \<Rightarrow> search_result" where
  "search_live env eng w q embedding =
     (case client_search env w q of
        (Inl e, w1) \<Rightarrow> (Inr (degraded q), eng, w1)
      | (Inr r, w1) \<Rightarrow>
          let payload = payload_of r;
              w2 = snd (SqliteCache_set env w1 q payload);
              (emb, e') =
                (case embedding of
                   Some v \<Rightarrow> (Inr v, embedder eng)
                 | None \<Rightarrow> Embedder_embed env (embedder eng) q);
              w3 =
                (case emb of
                   Inl e \<Rightarrow> w2
                 | Inr v \<Rightarrow> snd (RedisVectorCache_set env (redis eng) w2 q payload v))
          in (Inr \<lparr>query = q, source = ''searxng'', payload = payload\<rparr>, eng\<lparr>embedder := e'\<rparr>, w3))"

text \<open>Step 3: the SQLite cache; \<open>item is not None\<close> is the test, not the payload's truth value.\<close>

definition search_sqlite :: "env \<Rightarrow> HybridSearchEngine \<Rightarrow> world \<Rightarrow> string \<Rightarrow> embedding option \<Rightarrow> search_result" where
  "search_sqlite env eng w q embedding =
     (case SqliteCache_get env w q of
        (Inr (Some item), w1) \<Rightarrow>
          (Inr \<lparr>query = q, source = ''sqlite'', payload = item_payload item\<rparr>, eng, w1)
      | (Inr None, w1) \<Rightarrow> search_live env eng w1 q embedding
      | (Inl e, w1) \<Rightarrow> search_live env eng w1 q embedding)"

text \<open>Step 2: the embedding and the nearest neighbours; \<open>if hits:\<close> takes the first.\<close>

definition search_semantic :: "env \<Rightarrow> HybridSearchEngine \<Rightarrow> world \<Rightarrow> string \<Rightarrow> search_result" where
  "search_semantic env eng w q =
     (case Embedder_embed env (embedder eng) q of
        (Inl e, e') \<Rightarrow> search_sqlite env (eng\<lparr>embedder := e'\<rparr>) w q None
      | (Inr v, e') \<Rightarrow>
          (case RedisVectorCache_search_similar env (redis eng) w v 3 of
             (Inr (best # hits), w1) \<Rightarrow>
               (Inr \<lparr>query = q, source = ''redis_semantic'', payload = hit_payload best\<rparr>,
                eng\<lparr>embedder := e'\<rparr>, w1)
           | (Inr [], w1) \<Rightarrow> search_sqlite env (eng\<lparr>embedder := e'\<rparr>) w1 q (Some v)
           | (Inl e, w1) \<Rightarrow> search_sqlite env (eng\<lparr>embedder := e'\<rparr>) w1 q (Some v)))"

text \<open>\<open>search\<close>: the trimmed query, step 1 (the exact entry, taken when it is truthy), then the rest.\<close>

definition HybridSearchEngine_search :: "env \<Rightarrow> HybridSearchEngine \<Rightarrow> world \<Rightarrow> string \<Rightarrow> search_result" where
  "HybridSearchEngine_search env eng w query0 =
     (let q = strip query0
      in if q = [] then (Inr (degraded q), eng, w)
         else
           (case RedisVectorCache_get_exact env (redis eng) w q of
              (Inr (Some exact), w1) \<Rightarrow>
                if truthy exact
                then (Inr \<lparr>query = q, source = ''redis_exact'', payload = exact\<rparr>, eng, w1)
                else search_semantic env eng w1 q
            | (Inr None, w1) \<Rightarrow> search_semantic env eng w1 q
            | (Inl e, w1) \<Rightarrow> search_semantic env eng w1 q))"

section \<open>What a call of search meets\<close>

text \<open>
  The answers of the tiers to a query in a given world: the exact tier misses when the
  lookup raises, finds nothing or finds a payload that is not truthy; the semantic tier
  answers with what \<open>search_similar\<close> returns for the query's embedding, or with the
  exception of either; the cold tier misses when the lookup raises or finds no row; the
  live tier fails when the request raises.
\<close>

definition exact_misses :: "env \<Rightarrow> HybridSearchEngine \<Rightarrow> world \<Rightarrow> string \<Rightarrow> bool" where
  "exact_misses env eng w q =
     (case fst (RedisVectorCache_get_exact env (redis eng) w q) of
        Inr (Some p) \<Rightarrow> \<not> truthy p
      | Inr None \<Rightarrow> True
      | Inl e \<Rightarrow> True)"

definition semantic_result :: "env \<Rightarrow> HybridSearchEngine \<Rightarrow> world \<Rightarrow> string \<Rightarrow> exn + RedisSemanticHit list" where
  "semantic_result env eng w q =
     (case fst (Embedder_embed env (embedder eng) q) of
        Inl e \<Rightarrow> Inl e
      | Inr v \<Rightarrow> fst (RedisVectorCache_search_similar env (redis eng) w v 3))"

definition semantic_misses :: "env \<Rightarrow> HybridSearchEngine \<Rightarrow> world \<Rightarrow> string \<Rightarrow> bool" where
  "semantic_misses env eng w q =
     (case semantic_result env eng w q of
        Inr (h # hs) \<Rightarrow> False
      | Inr [] \<Rightarrow> True
      | Inl e \<Rightarrow> True)"

definition cold_misses :: "env \<Rightarrow> world \<Rightarrow> string \<Rightarrow> bool" where
  "cold_misses env w q =
     (case fst (SqliteCache_get env w q) of
        Inr (Some item) \<Rightarrow> False
      | Inr None \<Rightarrow> True
      | Inl e \<Rightarrow> True)"

definition live_fails :: "env \<Rightarrow> string \<Rightarrow> bool" where
  "live_fails env q = (case searxng env q of Inl e \<Rightarrow> True | Inr r \<Rightarrow> False)"

text \<open>\<open>payload.get(key)\<close> on a payload, as the debater reads \<open>"results"\<close>.\<close>

definition json_get :: "json \<Rightarrow> string \<Rightarrow> json option" where
  "json_get j k = (case j of JObj kvs \<Rightarrow> map_of kvs k | _ \<Rightarrow> None)"

text \<open>The requests to the live provider in a trace.\<close>

fun http_calls :: "call list \<Rightarrow> string list" where
  "http_calls [] = []"
| "http_calls (HTTP_GET q # cs) = q # http_calls cs"
| "http_calls (c # cs) = http_calls cs"

text \<open>The \<open>FT.SEARCH\<close> commands in a trace.\<close>

fun ft_calls :: "call list \<Rightarrow> nat" where
  "ft_calls [] = 0"
| "ft_calls (FT_SEARCH i k # cs) = Suc (ft_calls cs)"
| "ft_calls (c # cs) = ft_calls cs"

section \<open>A small environment for examples\<close>

text \<open>
  An environment to run the definitions in: the two JSON texts that the examples store
  are serialised and parsed as \<open>json\<close> does, every other text is not JSON; the digest is
  replaced by the identity; the sentence-transformers model is not installed; Redis and
  SQLite answer, RediSearch is not loaded, and the live provider is unreachable.
\<close>

definition demo_dumps :: "json \<Rightarrow> string" where
  \<open>demo_dumps j = (if j = JObj [(''results'', JArr [])] then ''{"results": []}'' else ''{}'')\<close>

definition demo_loads :: "string \<Rightarrow> exn + json" where
  \<open>demo_loads s =
     (if s = ''{}'' then Inr (JObj [])
      else if s = ''{"results": []}'' then Inr (JObj [(''results'', JArr [])])
      else Inl JSONDecodeError)\<close>

definition demo_env :: env where
  "demo_env =
     \<lparr>st_load = (\<lambda>name. Some ModelError),
      st_encode = (\<lambda>name text. Inl ModelError),
      json_dumps = demo_dumps,
      json_loads = demo_loads,
      float_of_str = (\<lambda>s. if s = ''0'' then Inr 0 else Inl ValueError),
      str_of_float = (\<lambda>x. ''0.0''),
      tobytes = (\<lambda>v. concat (map (\<lambda>x. [CHR 0x00, CHR 0x00, CHR 0x00, CHR 0x00]) v)),
      sha256_hex = (\<lambda>s. s),
      clock = 0,
      redis_up = True,
      ft_search = (\<lambda>h index vec k. Inl (ResponseError ''unknown command'')),
      sqlite_up = True,
      searxng = (\<lambda>q. Inl RequestException)\<rparr>"

definition empty_world :: world where
  "empty_world = \<lparr>hashes = Map.empty, expiry = Map.empty, rows = Map.empty, trace = []\<rparr>"

definition hash_embedder :: "int \<Rightarrow> Embedder" where
  "hash_embedder n =
     \<lparr>mode = ''hash'', model_name = ''sentence-transformers/all-MiniLM-L6-v2'', dim_n = n,
      model_loaded = False\<rparr>"

text \<open>The first \<open>search\<close> for \<open>a\<close> on a fresh engine, with nothing cached and RediSearch missing.\<close>

definition first_call :: search_result where
  "first_call = HybridSearchEngine_search demo_env (HybridSearchEngine_init (hash_embedder 4)) empty_world ''a''"

text \<open>An embedder asked for the model, and one whose mode is neither of the recognised ones.\<close>

definition st_embedder :: Embedder where
  "st_embedder = (hash_embedder 4)\<lparr>mode := ''st''\<rparr>"

definition auto_embedder :: Embedder where
  "auto_embedder = (hash_embedder 4)\<lparr>mode := ''auto''\<rparr>"

definition demo_engine :: HybridSearchEngine where
  "demo_engine = HybridSearchEngine_init (hash_embedder 4)"

text \<open>Nothing answers: Redis and SQLite are down and the live provider is unreachable.\<close>

definition down_env :: env where
  "down_env = demo_env\<lparr>redis_up := False, sqlite_up := False\<rparr>"

text \<open>A server with RediSearch whose index holds one entry, as \<open>FT.SEARCH\<close> returns it.\<close>

definition demo_reply :: resp where
  \<open>demo_reply =
     RArr [RInt 1, RBulk ''searx_cache:a'',
           RArr [RBulk ''query'', RBulk ''a'',
                 RBulk ''payload_json'', RBulk ''{"results": []}'',
                 RBulk ''score'', RBulk ''0'']]\<close>

definition ann_env :: env where
  "ann_env = demo_env\<lparr>ft_search := (\<lambda>h index vec k. Inr demo_reply)\<rparr>"

text \<open>The same with an entry whose \<open>payload_json\<close> is no JSON and whose score is no number.\<close>

definition broken_reply :: resp where
  "broken_reply =
     RArr [RInt 1, RBulk ''searx_cache:a'',
           RArr [RBulk ''query'', RBulk ''a'',
                 RBulk ''payload_json'', RBulk ''{broken'',
                 RBulk ''score'', RBulk ''n/a'']]"

definition broken_env :: env where
  "broken_env = demo_env\<lparr>ft_search := (\<lambda>h index vec k. Inr broken_reply)\<rparr>"

text \<open>A world whose SQLite table holds one row, for the query \<open>a\<close>.\<close>

definition cold_world :: world where
  \<open>cold_world = empty_world\<lparr>rows := [''a'' \<mapsto> (''{"results": []}'', 0)]\<rparr>\<close>

section \<open>Properties\<close>


lemma hgetall_eq:
  "redis_hgetall env w key =
     (if redis_up env then Inr (case hashes w key of None \<Rightarrow> Map.empty | Some h \<Rightarrow> h)
      else Inl ConnectionError,
      w\<lparr>trace := trace w @ [HGETALL key]\<rparr>)"
  by (simp add: redis_hgetall_def Let_def)

lemma get_exact_world:
  "snd (RedisVectorCache_get_exact env c w q) =
     w\<lparr>trace := trace w @ [HGETALL (RedisVectorCache_make_key c (RedisVectorCache_stable_id env q))]\<rparr>"
  by (simp add: RedisVectorCache_get_exact_def hgetall_eq Let_def)

lemma search_similar_world:
  "snd (RedisVectorCache_search_similar env c w v k) =
     (if int (length v) \<noteq> vector_dim c then w
      else w\<lparr>trace := trace w @ [FT_SEARCH (index_name c) k]\<rparr>)"
  by (simp add: RedisVectorCache_search_similar_def redis_ft_search_def Let_def split: sum.splits)

lemma search_similar_result:
  "fst (RedisVectorCache_search_similar env c (w\<lparr>trace := t\<rparr>) v k) = fst (RedisVectorCache_search_similar env c w v k)"
  by (simp add: RedisVectorCache_search_similar_def redis_ft_search_def Let_def split: sum.splits)

lemma sqlite_get_world:
  "snd (SqliteCache_get env w q) = w\<lparr>trace := trace w @ [SQL_SELECT q]\<rparr>"
  by (simp add: SqliteCache_get_def Let_def split: option.splits sum.splits prod.splits)

lemma sqlite_get_result:
  "fst (SqliteCache_get env (w\<lparr>trace := t\<rparr>) q) = fst (SqliteCache_get env w q)"
  by (simp add: SqliteCache_get_def Let_def split: option.splits sum.splits prod.splits)

lemma search_live_returns:
  "\<exists>out eng' w'. search_live env eng w q emb = (Inr out, eng', w')"
  by (simp add: search_live_def Let_def split: prod.splits sum.splits option.splits)

lemma search_sqlite_returns:
  "\<exists>out eng' w'. search_sqlite env eng w q emb = (Inr out, eng', w')"
  using search_live_returns
  by (simp add: search_sqlite_def split: prod.splits sum.splits option.splits)

lemma search_semantic_returns:
  "\<exists>out eng' w'. search_semantic env eng w q = (Inr out, eng', w')"
  using search_sqlite_returns
  by (simp add: search_semantic_def split: prod.splits sum.splits list.splits)

lemma search_returns:
  "\<exists>out eng' w'. HybridSearchEngine_search env eng w q0 = (Inr out, eng', w')"
  using search_semantic_returns
  by (simp add: HybridSearchEngine_search_def Let_def split: prod.splits sum.splits option.splits)

lemma search_live_fails:
  "live_fails env q \<Longrightarrow> fst (search_live env eng w q emb) = Inr (degraded q)"
  by (simp add: search_live_def live_fails_def client_search_def split: sum.splits)

lemma search_sqlite_misses:
  "cold_misses env w q \<Longrightarrow> search_sqlite env eng w q emb = search_live env eng (snd (SqliteCache_get env w q)) q emb"
  by (cases "SqliteCache_get env w q") (simp add: search_sqlite_def cold_misses_def split: sum.splits option.splits)

lemma search_sqlite_hit:
  "fst (SqliteCache_get env w q) = Inr (Some item) \<Longrightarrow>
   search_sqlite env eng w q emb =
     (Inr \<lparr>query = q, source = ''sqlite'', payload = item_payload item\<rparr>, eng, w\<lparr>trace := trace w @ [SQL_SELECT q]\<rparr>)"
  using sqlite_get_world [of env w q]
  by (cases "SqliteCache_get env w q") (simp add: search_sqlite_def)


lemma http_calls_append: "http_calls (xs @ ys) = http_calls xs @ http_calls ys"
  by (induction xs rule: http_calls.induct) simp_all

lemma get_exact_result:
  "fst (RedisVectorCache_get_exact env c (w\<lparr>trace := t\<rparr>) q) = fst (RedisVectorCache_get_exact env c w q)"
  by (simp add: RedisVectorCache_get_exact_def hgetall_eq Let_def)

lemma exact_misses_cong:
  "exact_misses env eng (w\<lparr>trace := t\<rparr>) q = exact_misses env eng w q"
  by (simp add: exact_misses_def get_exact_result)

lemma semantic_result_cong:
  "semantic_result env eng (w\<lparr>trace := t\<rparr>) q = semantic_result env eng w q"
  by (simp add: semantic_result_def search_similar_result split: sum.splits)

lemma semantic_misses_cong:
  "semantic_misses env eng (w\<lparr>trace := t\<rparr>) q = semantic_misses env eng w q"
  by (simp add: semantic_misses_def semantic_result_cong)

lemma cold_misses_cong:
  "cold_misses env (w\<lparr>trace := t\<rparr>) q = cold_misses env w q"
  by (simp add: cold_misses_def sqlite_get_result)

lemma search_semantic_hit:
  assumes "semantic_result env eng w q = Inr (best # rest)"
  shows "fst (search_semantic env eng w q) =
           Inr \<lparr>query = q, source = ''redis_semantic'', payload = hit_payload best\<rparr>"
proof (cases "Embedder_embed env (embedder eng) q")
  case (Pair r e')
  with assms obtain v where r: "r = Inr v"
    by (cases r) (simp_all add: semantic_result_def)
  with assms Pair have "fst (RedisVectorCache_search_similar env (redis eng) w v 3) = Inr (best # rest)"
    by (simp add: semantic_result_def)
  then show ?thesis
    using Pair r
    by (cases "RedisVectorCache_search_similar env (redis eng) w v 3") (simp add: search_semantic_def)
qed

lemma search_similar_trace:
  "\<exists>t. snd (RedisVectorCache_search_similar env c w v k) = w\<lparr>trace := trace w @ t\<rparr> \<and> http_calls t = []"
proof (cases "int (length v) \<noteq> vector_dim c")
  case True
  then have "snd (RedisVectorCache_search_similar env c w v k) = w\<lparr>trace := trace w @ []\<rparr>"
    by (simp add: search_similar_world)
  moreover have "http_calls [] = []" by simp
  ultimately show ?thesis by blast
next
  case False
  then have "snd (RedisVectorCache_search_similar env c w v k) = w\<lparr>trace := trace w @ [FT_SEARCH (index_name c) k]\<rparr>"
    by (simp add: search_similar_world)
  moreover have "http_calls [FT_SEARCH (index_name c) k] = []" by simp
  ultimately show ?thesis by blast
qed

lemma search_semantic_misses:
  assumes "semantic_misses env eng w q"
  shows "\<exists>eng' emb t. search_semantic env eng w q = search_sqlite env eng' (w\<lparr>trace := trace w @ t\<rparr>) q emb
           \<and> http_calls t = []"
proof (cases "Embedder_embed env (embedder eng) q")
  case (Pair r e')
  show ?thesis
  proof (cases r)
    case (Inl e)
    have "search_semantic env eng w q = search_sqlite env (eng\<lparr>embedder := e'\<rparr>) (w\<lparr>trace := trace w @ []\<rparr>) q None"
      using Pair Inl by (simp add: search_semantic_def)
    moreover have "http_calls [] = []" by simp
    ultimately show ?thesis by blast
  next
    case (Inr v)
    obtain rh w1 where s: "RedisVectorCache_search_similar env (redis eng) w v 3 = (rh, w1)"
      by (cases "RedisVectorCache_search_similar env (redis eng) w v 3")
    with assms Pair Inr have miss: "rh = Inr [] \<or> (\<exists>e. rh = Inl e)"
      by (cases rh) (auto simp: semantic_misses_def semantic_result_def split: list.splits)
    obtain t where t: "w1 = w\<lparr>trace := trace w @ t\<rparr>" "http_calls t = []"
      using search_similar_trace [of env "redis eng" w v 3] s by auto
    have "search_semantic env eng w q = search_sqlite env (eng\<lparr>embedder := e'\<rparr>) w1 q (Some v)"
      using Pair Inr s miss by (auto simp: search_semantic_def)
    with t show ?thesis by blast
  qed
qed

lemma strip_degraded:
  "source (degraded q) = ''degraded'' \<and> json_get (payload (degraded q)) ''results'' = Some (JArr [])"
  by (simp add: degraded_def json_get_def)

lemma search_all_miss:
  assumes "exact_misses env eng w (strip q0)" "semantic_misses env eng w (strip q0)"
    "cold_misses env w (strip q0)" "live_fails env (strip q0)"
  shows "fst (HybridSearchEngine_search env eng w q0) = Inr (degraded (strip q0))"
proof (cases "strip q0 = []")
  case True
  then show ?thesis by (simp add: HybridSearchEngine_search_def)
next
  case False
  define q where "q = strip q0"
  obtain r1 w1 where g: "RedisVectorCache_get_exact env (redis eng) w q = (r1, w1)"
    by (cases "RedisVectorCache_get_exact env (redis eng) w q")
  have w1: "w1 = w\<lparr>trace := trace w @ [HGETALL (RedisVectorCache_make_key (redis eng) (RedisVectorCache_stable_id env q))]\<rparr>"
    using get_exact_world [of env "redis eng" w q] g by simp
  have step1: "HybridSearchEngine_search env eng w q0 = search_semantic env eng w1 q"
    using False g assms(1)
    by (auto simp: HybridSearchEngine_search_def exact_misses_def q_def split: sum.splits option.splits)
  have "semantic_misses env eng w1 q"
    using assms(2) w1 by (simp add: semantic_misses_cong q_def)
  then obtain eng' emb t where
    step2: "search_semantic env eng w1 q = search_sqlite env eng' (w1\<lparr>trace := trace w1 @ t\<rparr>) q emb"
    using search_semantic_misses by blast
  have "cold_misses env (w1\<lparr>trace := trace w1 @ t\<rparr>) q"
    using assms(3) w1 by (simp add: cold_misses_cong q_def)
  then have step3: "search_sqlite env eng' (w1\<lparr>trace := trace w1 @ t\<rparr>) q emb =
      search_live env eng' (snd (SqliteCache_get env (w1\<lparr>trace := trace w1 @ t\<rparr>) q)) q emb"
    by (rule search_sqlite_misses)
  show ?thesis
    using step1 step2 step3 assms(4) by (simp add: search_live_fails q_def)
qed


lemma search_exact_misses:
  assumes "strip q0 \<noteq> []" "exact_misses env eng w (strip q0)"
  shows "HybridSearchEngine_search env eng w q0 =
     search_semantic env eng
       (w\<lparr>trace := trace w @ [HGETALL (RedisVectorCache_make_key (redis eng) (RedisVectorCache_stable_id env (strip q0)))]\<rparr>)
       (strip q0)"
proof -
  obtain r1 w1 where g: "RedisVectorCache_get_exact env (redis eng) w (strip q0) = (r1, w1)"
    by (cases "RedisVectorCache_get_exact env (redis eng) w (strip q0)")
  have w1: "w1 = w\<lparr>trace := trace w @ [HGETALL (RedisVectorCache_make_key (redis eng) (RedisVectorCache_stable_id env (strip q0)))]\<rparr>"
    using get_exact_world [of env "redis eng" w "strip q0"] g by simp
  have "HybridSearchEngine_search env eng w q0 = search_semantic env eng w1 (strip q0)"
    using assms g
    by (auto simp: HybridSearchEngine_search_def exact_misses_def split: sum.splits option.splits)
  with w1 show ?thesis by simp
qed

text \<open>
  Claim C1. \<open>search\<close> returns an outcome for every input string and never raises: each
  exception of a tier is absorbed where the tier is called. When the exact lookup, the
  semantic lookup and the cold lookup fail or miss and the live request raises, the
  outcome is tagged \<open>degraded\<close> and its payload's \<open>results\<close> list is empty.
\<close>

theorem search_never_raises:
  "(\<exists>out eng' w'. HybridSearchEngine_search env eng w q0 = (Inr out, eng', w')) \<and>
   (exact_misses env eng w (strip q0) \<and> semantic_misses env eng w (strip q0) \<and>
    cold_misses env w (strip q0) \<and> live_fails env (strip q0) \<longrightarrow>
      (\<exists>out. fst (HybridSearchEngine_search env eng w q0) = Inr out \<and>
         source out = ''degraded'' \<and> json_get (payload out) ''results'' = Some (JArr [])))"
  using search_returns [of env eng w q0] search_all_miss [of env eng w q0] strip_degraded [of "strip q0"]
  by simp

text \<open>
  Claim C4. For a query that is not empty after trimming, when the exact tier misses and
  \<open>search_similar\<close> returns a non-empty list of hits, \<open>search\<close> returns the first hit's
  payload tagged \<open>redis_semantic\<close>. Nothing is assumed about the hit's score: no
  threshold gates the acceptance.
\<close>

theorem semantic_hit_unconditional:
  assumes "strip q0 \<noteq> []" "exact_misses env eng w (strip q0)"
    "semantic_result env eng w (strip q0) = Inr (best # rest)"
  shows "fst (HybridSearchEngine_search env eng w q0) =
           Inr \<lparr>query = strip q0, source = ''redis_semantic'', payload = hit_payload best\<rparr>"
  using assms by (simp add: search_exact_misses search_semantic_hit semantic_result_cong)

text \<open>
  Claim C6. For a query that is not empty after trimming, when the exact tier misses or
  fails, the semantic tier fails, is unsupported or finds nothing, and the SQLite table
  holds a row for the query whose \<open>payload_json\<close> parses to \<open>p\<close>, \<open>search\<close> returns
  \<open>p\<close> tagged \<open>sqlite\<close>; no request is sent to the live provider and nothing is
  written.
\<close>

theorem cold_hit:
  assumes "strip q0 \<noteq> []" "exact_misses env eng w (strip q0)" "semantic_misses env eng w (strip q0)"
    "sqlite_up env" "rows w (strip q0) = Some (payload_json, created)" "json_loads env payload_json = Inr p"
  shows "\<exists>eng' w'. HybridSearchEngine_search env eng w q0 =
            (Inr \<lparr>query = strip q0, source = ''sqlite'', payload = p\<rparr>, eng', w')
          \<and> http_calls (trace w') = http_calls (trace w)
          \<and> hashes w' = hashes w \<and> rows w' = rows w"
proof -
  define q where "q = strip q0"
  define w1 where "w1 = w\<lparr>trace := trace w @ [HGETALL (RedisVectorCache_make_key (redis eng) (RedisVectorCache_stable_id env q))]\<rparr>"
  have s1: "HybridSearchEngine_search env eng w q0 = search_semantic env eng w1 q"
    using assms(1,2) by (simp add: search_exact_misses q_def w1_def)
  have "semantic_misses env eng w1 q"
    using assms(3) by (simp add: semantic_misses_cong q_def w1_def)
  then obtain eng' emb t where
    s2: "search_semantic env eng w1 q = search_sqlite env eng' (w1\<lparr>trace := trace w1 @ t\<rparr>) q emb"
    and t: "http_calls t = []"
    using search_semantic_misses by blast
  define w2 where "w2 = w1\<lparr>trace := trace w1 @ t\<rparr>"
  have "fst (SqliteCache_get env w2 q) = Inr (Some \<lparr>item_query = q, item_payload = p, created_at = created\<rparr>)"
    using assms(4,5,6) by (simp add: SqliteCache_get_def w2_def w1_def q_def)
  then have s3: "search_sqlite env eng' w2 q emb =
      (Inr \<lparr>query = q, source = ''sqlite'', payload = p\<rparr>, eng', w2\<lparr>trace := trace w2 @ [SQL_SELECT q]\<rparr>)"
    using search_sqlite_hit [of env w2 q _ eng' emb] by simp
  have "http_calls (trace (w2\<lparr>trace := trace w2 @ [SQL_SELECT q]\<rparr>)) = http_calls (trace w)"
    using t by (simp add: w2_def w1_def http_calls_append)
  moreover have "hashes (w2\<lparr>trace := trace w2 @ [SQL_SELECT q]\<rparr>) = hashes w"
    "rows (w2\<lparr>trace := trace w2 @ [SQL_SELECT q]\<rparr>) = rows w"
    by (simp_all add: w2_def w1_def)
  ultimately show ?thesis
    using s1 s2 s3 unfolding w2_def q_def by auto
qed


lemma hset_eq:
  "redis_hset env w key mapping =
     (if redis_up env
      then (Inr (), w\<lparr>trace := trace w @ [HSET key],
              hashes := (hashes w)(key \<mapsto> (case hashes w key of None \<Rightarrow> Map.empty | Some h \<Rightarrow> h) ++ map_of (rev mapping))\<rparr>)
      else (Inl ConnectionError, w\<lparr>trace := trace w @ [HSET key]\<rparr>))"
  by (simp add: redis_hset_def Let_def)

lemma set_result:
  "fst (RedisVectorCache_set env c w q p emb) =
     (if int (length emb) \<noteq> vector_dim c then Inl (ValueError_dim (length emb) (vector_dim c))
      else if redis_up env then Inr () else Inl ConnectionError)"
  by (simp add: RedisVectorCache_set_def hset_eq redis_expire_def Let_def)


text \<open>
  Claim C7. \<open>RedisVectorCache.set\<close> raises the dimension error exactly when the length of
  the embedding differs from \<open>vector_dim\<close>, and then it sends no command: the world,
  with every stored entry, is unchanged.
\<close>

theorem set_dimension_guard:
  "((\<exists>a b. fst (RedisVectorCache_set env c w q p emb) = Inl (ValueError_dim a b))
      \<longleftrightarrow> int (length emb) \<noteq> vector_dim c) \<and>
   (int (length emb) \<noteq> vector_dim c \<longrightarrow> snd (RedisVectorCache_set env c w q p emb) = w)"
  by (simp add: set_result) (simp add: RedisVectorCache_set_def)



lemma length_hash_loop: "length (hash_loop n s seed v) = length v"
  by (induction n s seed v rule: hash_loop.induct) (simp_all add: Let_def)

lemma length_hash_embed: "length (hash_embed text d) = nat (if d > 0 then d else 384)"
  by (simp add: hash_embed_def Let_def length_hash_loop)

lemma strip_x: "strip ''x'' = ''x''" and strip_a: "strip ''a'' = ''a''"
  by (simp_all add: strip_def rstrip_def space1_def space2_def space3_def)

theorem search_never_raises_witness:
  "exact_misses down_env demo_engine empty_world (strip ''x'') \<and>
   semantic_misses down_env demo_engine empty_world (strip ''x'') \<and>
   cold_misses down_env empty_world (strip ''x'') \<and> live_fails down_env (strip ''x'') \<and>
   (\<exists>out. fst (HybridSearchEngine_search down_env demo_engine empty_world ''x'') = Inr out \<and>
      source out = ''degraded'' \<and> json_get (payload out) ''results'' = Some (JArr []))"
proof -
  have h: "exact_misses down_env demo_engine empty_world (strip ''x'') \<and>
     semantic_misses down_env demo_engine empty_world (strip ''x'') \<and>
     cold_misses down_env empty_world (strip ''x'') \<and> live_fails down_env (strip ''x'')"
    by (simp add: strip_x exact_misses_def semantic_misses_def semantic_result_def cold_misses_def
        live_fails_def down_env_def demo_env_def demo_engine_def HybridSearchEngine_init_def
        hash_embedder_def empty_world_def RedisVectorCache_get_exact_def redis_hgetall_def
        Embedder_embed_def RedisVectorCache_search_similar_def redis_ft_search_def
        SqliteCache_get_def length_hash_embed Let_def)
  with search_never_raises [of down_env demo_engine empty_world "''x''"] show ?thesis
    by blast
qed

lemmas demo_defs =
  demo_env_def demo_engine_def HybridSearchEngine_init_def hash_embedder_def empty_world_def
  demo_dumps_def demo_loads_def

lemmas utf8_defs = decode_utf8_def in_range_def cont_byte_def


lemma exact_misses_empty:
  "redis_up env \<Longrightarrow> exact_misses env eng empty_world q"
  by (simp add: exact_misses_def RedisVectorCache_get_exact_def hgetall_eq payload_of_hash_def
      empty_world_def Let_def)

lemma demo_hits:
  "hits_of_reply ann_env demo_reply =
     Inr [\<lparr>hit_query = ''a'', hit_payload = JObj [(''results'', JArr [])], hit_score = 0\<rparr>]"
  by (simp add: hits_of_reply_def demo_reply_def hit_of_fields_def fields_of_def decode_resp_def
      utf8_defs ann_env_def demo_defs Let_def)

theorem semantic_hit_unconditional_witness:
  "strip ''a'' \<noteq> [] \<and> exact_misses ann_env demo_engine empty_world (strip ''a'') \<and>
   fst (HybridSearchEngine_search ann_env demo_engine empty_world ''a'') =
     Inr \<lparr>query = ''a'', source = ''redis_semantic'', payload = JObj [(''results'', JArr [])]\<rparr>"
proof -
  have up: "redis_up ann_env" by (simp add: ann_env_def demo_env_def)
  have e: "exact_misses ann_env demo_engine empty_world (strip ''a'')"
    using up by (rule exact_misses_empty)
  have s: "semantic_result ann_env demo_engine empty_world (strip ''a'') =
      Inr (\<lparr>hit_query = ''a'', hit_payload = JObj [(''results'', JArr [])], hit_score = 0\<rparr> # [])"
    using up demo_hits
    by (simp add: strip_a semantic_result_def Embedder_embed_def RedisVectorCache_search_similar_def
        redis_ft_search_def length_hash_embed demo_engine_def HybridSearchEngine_init_def
        hash_embedder_def Let_def) (simp add: ann_env_def)
  have n: "strip ''a'' \<noteq> []" by (simp add: strip_a)
  show ?thesis
    using n e semantic_hit_unconditional [OF n e s] by (simp add: strip_a)
qed


lemma semantic_misses_demo: "semantic_misses demo_env demo_engine w q"
  by (simp add: semantic_misses_def semantic_result_def Embedder_embed_def
      RedisVectorCache_search_similar_def redis_ft_search_def length_hash_embed demo_defs Let_def)

theorem cold_hit_witness:
  "strip ''a'' \<noteq> [] \<and> exact_misses demo_env demo_engine cold_world (strip ''a'') \<and>
   semantic_misses demo_env demo_engine cold_world (strip ''a'') \<and> sqlite_up demo_env \<and>
   (\<exists>eng' w'. HybridSearchEngine_search demo_env demo_engine cold_world ''a'' =
       (Inr \<lparr>query = ''a'', source = ''sqlite'', payload = JObj [(''results'', JArr [])]\<rparr>, eng', w')
     \<and> http_calls (trace w') = http_calls (trace cold_world)
     \<and> hashes w' = hashes cold_world \<and> rows w' = rows cold_world)"
proof -
  have n: "strip ''a'' \<noteq> []" by (simp add: strip_a)
  have e: "exact_misses demo_env demo_engine cold_world (strip ''a'')"
    by (simp add: exact_misses_def RedisVectorCache_get_exact_def hgetall_eq payload_of_hash_def
        cold_world_def empty_world_def Let_def)
  have m: "semantic_misses demo_env demo_engine cold_world (strip ''a'')"
    by (rule semantic_misses_demo)
  have u: "sqlite_up demo_env" by (simp add: demo_env_def)
  have r: "rows cold_world (strip ''a'') = Some (json_dumps demo_env (JObj [(''results'', JArr [])]), 0)"
    by (simp add: strip_a cold_world_def empty_world_def demo_env_def demo_dumps_def)
  have l: "json_loads demo_env (json_dumps demo_env (JObj [(''results'', JArr [])])) = Inr (JObj [(''results'', JArr [])])"
    by (simp add: demo_env_def demo_dumps_def demo_loads_def)
  show ?thesis
    using n e m u cold_hit [OF n e m u r l] by (simp add: strip_a)
qed

theorem set_dimension_guard_witness:
  "int (length [0, 0 :: real]) \<noteq> vector_dim (redis demo_engine) \<and>
   fst (RedisVectorCache_set demo_env (redis demo_engine) empty_world ''a'' (JObj []) [0, 0]) =
     Inl (ValueError_dim 2 4) \<and>
   snd (RedisVectorCache_set demo_env (redis demo_engine) empty_world ''a'' (JObj []) [0, 0]) = empty_world"
proof -
  have h: "int (length [0, 0 :: real]) \<noteq> vector_dim (redis demo_engine)"
    by (simp add: demo_defs)
  moreover have "fst (RedisVectorCache_set demo_env (redis demo_engine) empty_world ''a'' (JObj []) [0, 0]) =
     Inl (ValueError_dim 2 4)"
    by (simp add: RedisVectorCache_set_def demo_defs)
  ultimately show ?thesis
    using set_dimension_guard [of demo_env "redis demo_engine" empty_world "''a''" "JObj []" "[0, 0]"]
    by simp
qed




lemma hit_of_fields_eq:
  assumes "field_map_of fs Map.empty = Inr fm"
    "fm (RBulk ''query'') = Some (RBulk qb)" "utf8_valid qb"
    "fm (RBulk ''payload_json'') = Some (RBulk pj)"
    "fm (RBulk ''score'') = Some (RBulk sb)"
  shows "hit_of_fields env (RArr fs) =
     Inr \<lparr>hit_query = qb,
          hit_payload = (case loads_bytes env pj of Inl e \<Rightarrow> JObj [] | Inr p \<Rightarrow> p),
          hit_score = (case float_of_bytes env sb of Inl e \<Rightarrow> 0 | Inr x \<Rightarrow> x)\<rparr>"
  using assms
  by (simp add: hit_of_fields_def fields_of_def decode_resp_def decode_utf8_def loads_bytes_def
      float_of_bytes_def Let_def split: sum.splits)

text \<open>
  Claim C9. An entry of the \<open>FT.SEARCH\<close> reply whose \<open>payload_json\<close> is no JSON or whose
  score is no number is neither an error nor dropped: \<open>search_similar\<close> returns a hit for
  it, with the empty dict for the payload that does not parse and 0 for the score that
  does not. When it is the first hit and its payload does not parse, \<open>search\<close> returns an
  outcome tagged \<open>redis_semantic\<close> whose payload is the empty dict, without a
  \<open>results\<close> key.
\<close>

theorem broken_entry_is_still_a_hit:
  assumes "strip q0 \<noteq> []" "exact_misses env eng w (strip q0)"
    "fst (Embedder_embed env (embedder eng) (strip q0)) = Inr v"
    "int (length v) = vector_dim (redis eng)" "redis_up env"
    "ft_search env (hashes w) (index_name (redis eng)) (tobytes env v) 3 =
       Inr (RArr (count # doc_id # RArr fs # rest))"
    "field_map_of fs Map.empty = Inr fm"
    "fm (RBulk ''query'') = Some (RBulk qb)" "utf8_valid qb"
    "fm (RBulk ''payload_json'') = Some (RBulk pj)"
    "fm (RBulk ''score'') = Some (RBulk sb)"
    "hits_of env rest = Inr hs"
  shows "fst (RedisVectorCache_search_similar env (redis eng) w v 3) =
           Inr (\<lparr>hit_query = qb,
                 hit_payload = (case loads_bytes env pj of Inl e \<Rightarrow> JObj [] | Inr p \<Rightarrow> p),
                 hit_score = (case float_of_bytes env sb of Inl e \<Rightarrow> 0 | Inr x \<Rightarrow> x)\<rparr> # hs)
       \<and> ((\<exists>e. loads_bytes env pj = Inl e) \<longrightarrow>
            fst (HybridSearchEngine_search env eng w q0) =
              Inr \<lparr>query = strip q0, source = ''redis_semantic'', payload = JObj []\<rparr>
            \<and> json_get (JObj []) ''results'' = None)"
proof -
  let ?h = "\<lparr>hit_query = qb,
             hit_payload = (case loads_bytes env pj of Inl e \<Rightarrow> JObj [] | Inr p \<Rightarrow> p),
             hit_score = (case float_of_bytes env sb of Inl e \<Rightarrow> 0 | Inr x \<Rightarrow> x)\<rparr>"
  have h: "hit_of_fields env (RArr fs) = Inr ?h"
    using assms(7-11) by (rule hit_of_fields_eq)
  have s: "fst (RedisVectorCache_search_similar env (redis eng) w v 3) = Inr (?h # hs)"
    using assms(4,5,6,12) h
    by (simp add: RedisVectorCache_search_similar_def redis_ft_search_def hits_of_reply_def Let_def)
  have r: "semantic_result env eng w (strip q0) = Inr (?h # hs)"
    using assms(3) s by (simp add: semantic_result_def)
  have "fst (HybridSearchEngine_search env eng w q0) =
      Inr \<lparr>query = strip q0, source = ''redis_semantic'', payload = hit_payload ?h\<rparr>"
    using assms(1,2) r by (simp add: search_exact_misses search_semantic_hit semantic_result_cong)
  then show ?thesis
    using s by (auto simp: json_get_def)
qed

theorem broken_entry_is_still_a_hit_witness:
  "strip ''a'' \<noteq> [] \<and> exact_misses broken_env demo_engine empty_world (strip ''a'') \<and>
   fst (RedisVectorCache_search_similar broken_env (redis demo_engine) empty_world (hash_embed ''a'' 4) 3) =
     Inr [\<lparr>hit_query = ''a'', hit_payload = JObj [], hit_score = 0\<rparr>] \<and>
   fst (HybridSearchEngine_search broken_env demo_engine empty_world ''a'') =
     Inr \<lparr>query = ''a'', source = ''redis_semantic'', payload = JObj []\<rparr> \<and>
   json_get (JObj []) ''results'' = None"
proof -
  have n: "strip ''a'' \<noteq> []" by (simp add: strip_a)
  have up: "redis_up broken_env" by (simp add: broken_env_def demo_env_def)
  have e: "exact_misses broken_env demo_engine empty_world (strip ''a'')"
    using up by (rule exact_misses_empty)
  have v: "fst (Embedder_embed broken_env (embedder demo_engine) (strip ''a'')) = Inr (hash_embed ''a'' 4)"
    by (simp add: strip_a Embedder_embed_def demo_defs)
  have d: "int (length (hash_embed ''a'' 4)) = vector_dim (redis demo_engine)"
    by (simp add: length_hash_embed demo_defs)
  have f: "ft_search broken_env (hashes empty_world) (index_name (redis demo_engine))
      (tobytes broken_env (hash_embed ''a'' 4)) 3 =
       Inr (RArr (RInt 1 # RBulk ''searx_cache:a'' #
         RArr [RBulk ''query'', RBulk ''a'', RBulk ''payload_json'', RBulk ''{broken'',
               RBulk ''score'', RBulk ''n/a''] # []))"
    by (simp add: broken_env_def broken_reply_def)
  have m: "field_map_of [RBulk ''query'', RBulk ''a'', RBulk ''payload_json'', RBulk ''{broken'',
               RBulk ''score'', RBulk ''n/a''] Map.empty =
      Inr [RBulk ''query'' \<mapsto> RBulk ''a'', RBulk ''payload_json'' \<mapsto> RBulk ''{broken'',
           RBulk ''score'' \<mapsto> RBulk ''n/a'']"
    by simp
  have l: "loads_bytes broken_env ''{broken'' = Inl JSONDecodeError"
    "float_of_bytes broken_env ''n/a'' = Inl ValueError"
    by (simp_all add: loads_bytes_def float_of_bytes_def utf8_defs broken_env_def demo_env_def demo_loads_def)
  have u: "utf8_valid ''a''" by (simp add: in_range_def)
  show ?thesis
    using n e l broken_entry_is_still_a_hit [OF n e v d up f m _ u _ _, of "''{broken''" "''n/a''" "[]"]
    by (simp add: strip_a)
qed

text \<open>
  Claim C2, as stated, fails: with mode \<open>st\<close> and a model that cannot be constructed,
  \<open>embed\<close> raises what \<open>_st_embed\<close> raises; the branch for the two model modes has no
  \<open>try\<close>.
\<close>

theorem embed_st_mode_raises:
  "fst (Embedder_embed demo_env st_embedder ''hello'') = Inl ModelError"
  by (simp add: Embedder_embed_def Embedder_st_embed_def st_embedder_def hash_embedder_def demo_env_def)

text \<open>
  Claim C2, amended. In mode \<open>hash\<close>, \<open>embed\<close> returns the hash embedding and never
  raises. In mode \<open>st\<close> or \<open>sentence-transformers\<close> it returns what \<open>_st_embed\<close> returns
  and raises what \<open>_st_embed\<close> raises. In every other mode it never raises: it returns
  the model's embedding, or the hash embedding when the model cannot be constructed or
  the encoding fails.
\<close>

theorem embed_by_mode:
  "(mode e = ''hash'' \<longrightarrow> fst (Embedder_embed env e text) = Inr (hash_embed text (dim_n e))) \<and>
   (mode e = ''st'' \<or> mode e = ''sentence-transformers'' \<longrightarrow>
      fst (Embedder_embed env e text) = fst (Embedder_st_embed env e text)) \<and>
   (mode e \<noteq> ''hash'' \<and> mode e \<noteq> ''st'' \<and> mode e \<noteq> ''sentence-transformers'' \<longrightarrow>
      (\<exists>v. fst (Embedder_embed env e text) = Inr v) \<and>
      (\<forall>v. fst (Embedder_st_embed env e text) = Inr v \<longrightarrow> fst (Embedder_embed env e text) = Inr v) \<and>
      (\<forall>err. fst (Embedder_st_embed env e text) = Inl err \<longrightarrow>
         fst (Embedder_embed env e text) = Inr (hash_embed text (dim_n e))))"
  by (cases "Embedder_st_embed env e text") (auto simp: Embedder_embed_def split: sum.splits)

theorem embed_by_mode_witness:
  "fst (Embedder_embed demo_env (hash_embedder 4) ''hello'') = Inr (hash_embed ''hello'' 4) \<and>
   fst (Embedder_embed demo_env st_embedder ''hello'') = fst (Embedder_st_embed demo_env st_embedder ''hello'') \<and>
   fst (Embedder_st_embed demo_env auto_embedder ''hello'') = Inl ModelError \<and>
   fst (Embedder_embed demo_env auto_embedder ''hello'') = Inr (hash_embed ''hello'' 4)"
proof -
  have f: "fst (Embedder_st_embed demo_env auto_embedder ''hello'') = Inl ModelError"
    by (simp add: Embedder_st_embed_def auto_embedder_def hash_embedder_def demo_env_def)
  show ?thesis
    using f embed_by_mode [of "hash_embedder 4" demo_env "''hello''"]
      embed_by_mode [of st_embedder demo_env "''hello''"]
      embed_by_mode [of auto_embedder demo_env "''hello''"]
    by (simp add: st_embedder_def auto_embedder_def hash_embedder_def)
qed

lemmas search_defs =
  HybridSearchEngine_search_def search_semantic_def search_sqlite_def search_live_def
  client_search_def RedisVectorCache_get_exact_def hgetall_eq payload_of_hash_def
  RedisVectorCache_search_similar_def redis_ft_search_def SqliteCache_get_def
  Embedder_embed_def length_hash_embed

lemma first_call_eq:
  "first_call =
     (Inr (degraded ''a''), demo_engine,
      empty_world\<lparr>trace := [HGETALL ''searx_cache:a'', FT_SEARCH ''idx:searx_cache'' 3,
                              SQL_SELECT ''a'', HTTP_GET ''a'']\<rparr>)"
  by (simp add: first_call_def strip_a search_defs demo_defs RedisVectorCache_make_key_def
      RedisVectorCache_stable_id_def Let_def)

lemma second_call_eq:
  "HybridSearchEngine_search demo_env (fst (snd first_call)) (snd (snd first_call)) ''a'' =
     (Inr (degraded ''a''), demo_engine,
      empty_world\<lparr>trace := [HGETALL ''searx_cache:a'', FT_SEARCH ''idx:searx_cache'' 3,
                              SQL_SELECT ''a'', HTTP_GET ''a'',
                              HGETALL ''searx_cache:a'', FT_SEARCH ''idx:searx_cache'' 3,
                              SQL_SELECT ''a'', HTTP_GET ''a'']\<rparr>)"
  by (simp add: first_call_eq strip_a search_defs demo_defs RedisVectorCache_make_key_def
      RedisVectorCache_stable_id_def Let_def)

text \<open>
  Claim C3, as stated, fails: the engine has no field that could remember the signal. On
  a server without RediSearch the first \<open>search\<close> sends \<open>FT.SEARCH\<close> and gets the error
  reply, and the second \<open>search\<close> on the same engine sends \<open>FT.SEARCH\<close> again.
\<close>

theorem unsupported_is_not_remembered:
  "semantic_result demo_env demo_engine empty_world ''a'' = Inl (ResponseError ''unknown command'') \<and>
   ft_calls (trace (snd (snd first_call))) = 1 \<and>
   ft_calls (trace (snd (snd (HybridSearchEngine_search demo_env (fst (snd first_call))
      (snd (snd first_call)) ''a'')))) = 2"
  by (simp add: second_call_eq first_call_eq semantic_result_def strip_a search_defs demo_defs Let_def)


lemma embed_state: "\<exists>b. snd (Embedder_embed env e text) = e\<lparr>model_loaded := b\<rparr>"
proof -
  have "e = e\<lparr>model_loaded := model_loaded e\<rparr>" by simp
  moreover have "\<exists>b. snd (Embedder_st_embed env e text) = e\<lparr>model_loaded := b\<rparr>"
    by (auto simp: Embedder_st_embed_def split: option.splits intro: exI [of _ "model_loaded e"])
  ultimately show ?thesis
    by (cases "Embedder_st_embed env e text")
       (auto simp: Embedder_embed_def split: sum.splits intro: exI [of _ "model_loaded e"])
qed

lemma sqlite_set_trace: "trace (snd (SqliteCache_set env w q p)) = trace w @ [SQL_INSERT q]"
  by (simp add: SqliteCache_set_def Let_def)

lemma redis_set_trace: "\<exists>t. trace (snd (RedisVectorCache_set env c w q p v)) = trace w @ t"
  by (simp add: RedisVectorCache_set_def hset_eq redis_expire_def Let_def)

lemma search_live_effect:
  "\<exists>b t. fst (snd (search_live env eng w q emb)) = eng\<lparr>embedder := (embedder eng)\<lparr>model_loaded := b\<rparr>\<rparr>
     \<and> trace (snd (snd (search_live env eng w q emb))) = trace w @ t"
proof (cases "searxng env q")
  case (Inl e)
  have "eng = eng\<lparr>embedder := (embedder eng)\<lparr>model_loaded := model_loaded (embedder eng)\<rparr>\<rparr>" by simp
  then show ?thesis
    using Inl by (auto simp: search_live_def client_search_def intro: exI [of _ "model_loaded (embedder eng)"])
next
  case (Inr r)
  define w2 where "w2 = snd (SqliteCache_set env (w\<lparr>trace := trace w @ [HTTP_GET q]\<rparr>) q (payload_of r))"
  have t2: "trace w2 = trace w @ [HTTP_GET q, SQL_INSERT q]"
    by (simp add: w2_def sqlite_set_trace)
  show ?thesis
  proof (cases emb)
    case (Some v)
    obtain t where "trace (snd (RedisVectorCache_set env (redis eng) w2 q (payload_of r) v)) = trace w2 @ t"
      using redis_set_trace by blast
    moreover have "eng = eng\<lparr>embedder := (embedder eng)\<lparr>model_loaded := model_loaded (embedder eng)\<rparr>\<rparr>" by simp
    ultimately show ?thesis
      using Inr Some t2
      by (auto simp: search_live_def client_search_def w2_def Let_def
          intro: exI [of _ "model_loaded (embedder eng)"])
  next
    case None
    obtain b where b: "snd (Embedder_embed env (embedder eng) q) = (embedder eng)\<lparr>model_loaded := b\<rparr>"
      using embed_state by blast
    obtain re e' where em: "Embedder_embed env (embedder eng) q = (re, e')"
      by (cases "Embedder_embed env (embedder eng) q")
    with b have e': "e' = (embedder eng)\<lparr>model_loaded := b\<rparr>" by simp
    show ?thesis
    proof (cases re)
      case (Inl e)
      then show ?thesis
        using Inr None em e' t2
        by (auto simp: search_live_def client_search_def w2_def Let_def)
    next
      case (Inr v)
      obtain t where "trace (snd (RedisVectorCache_set env (redis eng) w2 q (payload_of r) v)) = trace w2 @ t"
        using redis_set_trace by blast
      then show ?thesis
        using \<open>searxng env q = Inr r\<close> None em e' t2 Inr
        by (auto simp: search_live_def client_search_def w2_def Let_def)
    qed
  qed
qed


lemma search_sqlite_effect:
  "\<exists>b t. fst (snd (search_sqlite env eng w q emb)) = eng\<lparr>embedder := (embedder eng)\<lparr>model_loaded := b\<rparr>\<rparr>
     \<and> trace (snd (snd (search_sqlite env eng w q emb))) = trace w @ t"
proof -
  define w1 where "w1 = w\<lparr>trace := trace w @ [SQL_SELECT q]\<rparr>"
  obtain r w' where g: "SqliteCache_get env w q = (r, w')"
    by (cases "SqliteCache_get env w q")
  have w': "w' = w1"
    using sqlite_get_world [of env w q] g by (simp add: w1_def)
  obtain b t where l: "fst (snd (search_live env eng w1 q emb)) = eng\<lparr>embedder := (embedder eng)\<lparr>model_loaded := b\<rparr>\<rparr>"
      "trace (snd (snd (search_live env eng w1 q emb))) = trace w1 @ t"
    using search_live_effect by blast
  have id: "eng = eng\<lparr>embedder := (embedder eng)\<lparr>model_loaded := model_loaded (embedder eng)\<rparr>\<rparr>" by simp
  show ?thesis
  proof (cases "\<exists>item. r = Inr (Some item)")
    case True
    then obtain item where "r = Inr (Some item)" by blast
    with g w' have "search_sqlite env eng w q emb =
        (Inr \<lparr>query = q, source = ''sqlite'', payload = item_payload item\<rparr>, eng, w1)"
      by (simp add: search_sqlite_def)
    moreover have "trace w1 = trace w @ [SQL_SELECT q]" by (simp add: w1_def)
    ultimately show ?thesis using id by (metis fst_conv snd_conv)
  next
    case False
    with g w' have "search_sqlite env eng w q emb = search_live env eng w1 q emb"
      by (cases r) (auto simp: search_sqlite_def split: option.splits)
    moreover have "trace w1 @ t = trace w @ (SQL_SELECT q # t)" by (simp add: w1_def)
    ultimately show ?thesis using l by metis
  qed
qed

lemma search_semantic_effect:
  "\<exists>b t. fst (snd (search_semantic env eng w q)) = eng\<lparr>embedder := (embedder eng)\<lparr>model_loaded := b\<rparr>\<rparr>
     \<and> trace (snd (snd (search_semantic env eng w q))) = trace w @ t
     \<and> (\<forall>v. fst (Embedder_embed env (embedder eng) q) = Inr v \<and> int (length v) = vector_dim (redis eng)
          \<longrightarrow> (\<exists>t'. t = FT_SEARCH (index_name (redis eng)) 3 # t'))"
proof -
  obtain re e' where em: "Embedder_embed env (embedder eng) q = (re, e')"
    by (cases "Embedder_embed env (embedder eng) q")
  obtain b0 where e': "e' = (embedder eng)\<lparr>model_loaded := b0\<rparr>"
    using embed_state [of env "embedder eng" q] em by auto
  define eng1 where "eng1 = eng\<lparr>embedder := e'\<rparr>"
  have eng1: "\<And>b. eng1\<lparr>embedder := (embedder eng1)\<lparr>model_loaded := b\<rparr>\<rparr> =
      eng\<lparr>embedder := (embedder eng)\<lparr>model_loaded := b\<rparr>\<rparr>"
    by (simp add: eng1_def e')
  show ?thesis
  proof (cases re)
    case (Inl e)
    obtain b t where "fst (snd (search_sqlite env eng1 w q None)) = eng1\<lparr>embedder := (embedder eng1)\<lparr>model_loaded := b\<rparr>\<rparr>"
      "trace (snd (snd (search_sqlite env eng1 w q None))) = trace w @ t"
      using search_sqlite_effect by blast
    moreover have "search_semantic env eng w q = search_sqlite env eng1 w q None"
      using em Inl by (simp add: search_semantic_def eng1_def)
    ultimately show ?thesis using em Inl eng1 by auto
  next
    case (Inr v)
    obtain rh w1 where s: "RedisVectorCache_search_similar env (redis eng) w v 3 = (rh, w1)"
      by (cases "RedisVectorCache_search_similar env (redis eng) w v 3")
    have w1: "w1 = (if int (length v) \<noteq> vector_dim (redis eng) then w
        else w\<lparr>trace := trace w @ [FT_SEARCH (index_name (redis eng)) 3]\<rparr>)"
      using search_similar_world [of env "redis eng" w v 3] s by simp
    then obtain t1 where t1: "trace w1 = trace w @ t1"
      "int (length v) = vector_dim (redis eng) \<longrightarrow> t1 = [FT_SEARCH (index_name (redis eng)) 3]"
      by (cases "int (length v) = vector_dim (redis eng)") auto
    show ?thesis
    proof (cases "\<exists>best hits. rh = Inr (best # hits)")
      case True
      then obtain best hits where "rh = Inr (best # hits)" by blast
      with em Inr s have "search_semantic env eng w q =
          (Inr \<lparr>query = q, source = ''redis_semantic'', payload = hit_payload best\<rparr>, eng1, w1)"
        by (simp add: search_semantic_def eng1_def)
      moreover have "eng1 = eng\<lparr>embedder := (embedder eng)\<lparr>model_loaded := b0\<rparr>\<rparr>"
        by (simp add: eng1_def e')
      ultimately show ?thesis using t1 em Inr by auto
    next
      case False
      with em Inr s have eq: "search_semantic env eng w q = search_sqlite env eng1 w1 q (Some v)"
        by (cases rh) (auto simp: search_semantic_def eng1_def split: list.splits)
      obtain b t where "fst (snd (search_sqlite env eng1 w1 q (Some v))) = eng1\<lparr>embedder := (embedder eng1)\<lparr>model_loaded := b\<rparr>\<rparr>"
        "trace (snd (snd (search_sqlite env eng1 w1 q (Some v)))) = trace w1 @ t"
        using search_sqlite_effect by blast
      then show ?thesis using eq t1 em Inr eng1 by auto
    qed
  qed
qed


text \<open>
  Claim C3, amended. The engine keeps no record of what the semantic tier signalled: a
  call of \<open>search\<close> leaves the engine as it was, up to the embedder's loaded model.
  Whatever earlier calls met, a call whose query is not empty after trimming, whose exact
  lookup misses and whose embedding has the configured dimension sends \<open>FT.SEARCH\<close>,
  right after the exact lookup.
\<close>

theorem semantic_tier_is_tried_on_every_call:
  "(\<exists>b. fst (snd (HybridSearchEngine_search env eng w q0)) =
          eng\<lparr>embedder := (embedder eng)\<lparr>model_loaded := b\<rparr>\<rparr>) \<and>
   (strip q0 \<noteq> [] \<and> exact_misses env eng w (strip q0) \<and>
    fst (Embedder_embed env (embedder eng) (strip q0)) = Inr v \<and>
    int (length v) = vector_dim (redis eng) \<longrightarrow>
      (\<exists>t. trace (snd (snd (HybridSearchEngine_search env eng w q0))) =
         trace w @ HGETALL (RedisVectorCache_make_key (redis eng) (RedisVectorCache_stable_id env (strip q0)))
           # FT_SEARCH (index_name (redis eng)) 3 # t))"
proof -
  define w1 where "w1 = w\<lparr>trace := trace w @ [HGETALL (RedisVectorCache_make_key (redis eng)
      (RedisVectorCache_stable_id env (strip q0)))]\<rparr>"
  obtain b t where sem:
    "fst (snd (search_semantic env eng w1 (strip q0))) = eng\<lparr>embedder := (embedder eng)\<lparr>model_loaded := b\<rparr>\<rparr>"
    "trace (snd (snd (search_semantic env eng w1 (strip q0)))) = trace w1 @ t"
    "\<forall>v. fst (Embedder_embed env (embedder eng) (strip q0)) = Inr v \<and> int (length v) = vector_dim (redis eng)
          \<longrightarrow> (\<exists>t'. t = FT_SEARCH (index_name (redis eng)) 3 # t')"
    using search_semantic_effect [of env eng w1 "strip q0"] by (elim exE conjE) (rule that)
  have id: "eng = eng\<lparr>embedder := (embedder eng)\<lparr>model_loaded := model_loaded (embedder eng)\<rparr>\<rparr>" by simp
  have first: "\<exists>b. fst (snd (HybridSearchEngine_search env eng w q0)) =
          eng\<lparr>embedder := (embedder eng)\<lparr>model_loaded := b\<rparr>\<rparr>"
  proof (cases "strip q0 \<noteq> [] \<and> exact_misses env eng w (strip q0)")
    case True
    then have "HybridSearchEngine_search env eng w q0 = search_semantic env eng w1 (strip q0)"
      by (simp add: search_exact_misses w1_def)
    with sem(1) show ?thesis by metis
  next
    case False
    obtain r1 w' where g: "RedisVectorCache_get_exact env (redis eng) w (strip q0) = (r1, w')"
      by (cases "RedisVectorCache_get_exact env (redis eng) w (strip q0)")
    have "fst (snd (HybridSearchEngine_search env eng w q0)) = eng"
      using False g
      by (auto simp: HybridSearchEngine_search_def exact_misses_def Let_def split: sum.splits option.splits)
    with id show ?thesis by metis
  qed
  have second: "strip q0 \<noteq> [] \<and> exact_misses env eng w (strip q0) \<and>
    fst (Embedder_embed env (embedder eng) (strip q0)) = Inr v \<and>
    int (length v) = vector_dim (redis eng) \<longrightarrow>
      (\<exists>t. trace (snd (snd (HybridSearchEngine_search env eng w q0))) =
         trace w @ HGETALL (RedisVectorCache_make_key (redis eng) (RedisVectorCache_stable_id env (strip q0)))
           # FT_SEARCH (index_name (redis eng)) 3 # t)"
  proof
    assume a: "strip q0 \<noteq> [] \<and> exact_misses env eng w (strip q0) \<and>
      fst (Embedder_embed env (embedder eng) (strip q0)) = Inr v \<and>
      int (length v) = vector_dim (redis eng)"
    then have eq: "HybridSearchEngine_search env eng w q0 = search_semantic env eng w1 (strip q0)"
      by (simp add: search_exact_misses w1_def)
    from a sem(3) obtain t' where "t = FT_SEARCH (index_name (redis eng)) 3 # t'" by blast
    with sem(2) eq show "\<exists>t. trace (snd (snd (HybridSearchEngine_search env eng w q0))) =
         trace w @ HGETALL (RedisVectorCache_make_key (redis eng) (RedisVectorCache_stable_id env (strip q0)))
           # FT_SEARCH (index_name (redis eng)) 3 # t"
      by (simp add: w1_def)
  qed
  from first second show ?thesis by blast
qed

theorem semantic_tier_is_tried_on_every_call_witness:
  "strip ''a'' \<noteq> [] \<and>
   exact_misses demo_env (fst (snd first_call)) (snd (snd first_call)) (strip ''a'') \<and>
   fst (Embedder_embed demo_env (embedder (fst (snd first_call))) (strip ''a'')) = Inr (hash_embed ''a'' 4) \<and>
   int (length (hash_embed ''a'' 4)) = vector_dim (redis (fst (snd first_call))) \<and>
   (\<exists>t. trace (snd (snd (HybridSearchEngine_search demo_env (fst (snd first_call)) (snd (snd first_call)) ''a''))) =
      trace (snd (snd first_call)) @ HGETALL ''searx_cache:a'' # FT_SEARCH ''idx:searx_cache'' 3 # t)"
proof -
  have h: "strip ''a'' \<noteq> [] \<and>
     exact_misses demo_env (fst (snd first_call)) (snd (snd first_call)) (strip ''a'') \<and>
     fst (Embedder_embed demo_env (embedder (fst (snd first_call))) (strip ''a'')) = Inr (hash_embed ''a'' 4) \<and>
     int (length (hash_embed ''a'' 4)) = vector_dim (redis (fst (snd first_call)))"
    by (simp add: first_call_eq strip_a exact_misses_def search_defs demo_defs Let_def)
  have k: "RedisVectorCache_make_key (redis (fst (snd first_call)))
      (RedisVectorCache_stable_id demo_env (strip ''a'')) = ''searx_cache:a''"
    "index_name (redis (fst (snd first_call))) = ''idx:searx_cache''"
    by (simp_all add: first_call_eq strip_a RedisVectorCache_make_key_def RedisVectorCache_stable_id_def demo_defs)
  show ?thesis
    using h k semantic_tier_is_tried_on_every_call [of demo_env "fst (snd first_call)" "snd (snd first_call)" "''a''" "hash_embed ''a'' 4"]
    by simp
qed

text \<open>
  Evaluating BLAKE2b: a 64-bit word is its own value below \<open>2^64\<close>, so masking after each
  addition and rotation changes nothing and keeps the numerals short.
\<close>

lemma mask64: "(x :: u64) AND 0xFFFFFFFFFFFFFFFF = x"
proof -
  have "(0xFFFFFFFFFFFFFFFF :: u64) = - 1" by simp
  then show ?thesis by (simp only: and.right_neutral bit.conj_one_right)
qed

lemma rotr64_masked: "rotr64 n x = (drop_bit n x OR push_bit (64 - n) x) AND 0xFFFFFFFFFFFFFFFF"
  by (simp only: rotr64_def mask64)

lemma blake2b_G_masked:
  "blake2b_G v a b c d x y =
     (let va = (v ! a + v ! b + x) AND 0xFFFFFFFFFFFFFFFF;
          vd = rotr64 32 (v ! d XOR va);
          vc = (v ! c + vd) AND 0xFFFFFFFFFFFFFFFF;
          vb = rotr64 24 (v ! b XOR vc);
          va2 = (va + vb + y) AND 0xFFFFFFFFFFFFFFFF;
          vd2 = rotr64 16 (vd XOR va2);
          vc2 = (vc + vd2) AND 0xFFFFFFFFFFFFFFFF;
          vb2 = rotr64 63 (vb XOR vc2)
      in v[a := va2, b := vb2, c := vc2, d := vd2])"
  by (simp only: blake2b_G_def mask64)

text \<open>The compression of the one block of \<open>bs\<close>, round by round.\<close>

lemma b2_bs_block: "le_words 16 ''bs'' = [0x7362, 0x0, 0x0, 0x0, 0x0, 0x0, 0x0, 0x0, 0x0, 0x0, 0x0, 0x0, 0x0, 0x0, 0x0, 0x0]"
  by (simp add: numeral_eq_Suc)

lemma b2_bs_init: "blake2b_init [0x6a09e667f2bdc928, 0xbb67ae8584caa73b, 0x3c6ef372fe94f82b, 0xa54ff53a5f1d36f1, 0x510e527fade682d1, 0x9b05688c2b3e6c1f, 0x1f83d9abfb41bd6b, 0x5be0cd19137e2179] blake2b_iv 2 True = [0x6a09e667f2bdc928, 0xbb67ae8584caa73b, 0x3c6ef372fe94f82b, 0xa54ff53a5f1d36f1, 0x510e527fade682d1, 0x9b05688c2b3e6c1f, 0x1f83d9abfb41bd6b, 0x5be0cd19137e2179, 0x6a09e667f3bcc908, 0xbb67ae8584caa73b, 0x3c6ef372fe94f82b, 0xa54ff53a5f1d36f1, 0x510e527fade682d3, 0x9b05688c2b3e6c1f, 0xe07c265404be4294, 0x5be0cd19137e2179]"
  by (simp add: blake2b_init_def blake2b_iv_def Let_def cong: let_weak_cong)

lemma b2_bs_round0: "blake2b_round [0x7362, 0x0, 0x0, 0x0, 0x0, 0x0, 0x0, 0x0, 0x0, 0x0, 0x0, 0x0, 0x0, 0x0, 0x0, 0x0] [0x6a09e667f2bdc928, 0xbb67ae8584caa73b, 0x3c6ef372fe94f82b, 0xa54ff53a5f1d36f1, 0x510e527fade682d1, 0x9b05688c2b3e6c1f, 0x1f83d9abfb41bd6b, 0x5be0cd19137e2179, 0x6a09e667f3bcc908, 0xbb67ae8584caa73b, 0x3c6ef372fe94f82b, 0xa54ff53a5f1d36f1, 0x510e527fade682d3, 0x9b05688c2b3e6c1f, 0xe07c265404be4294, 0x5be0cd19137e2179] 0 = [0x86b7dbadffc60d5a, 0x622b1d19a8a08097, 0xe83fc1af7e79071f, 0x97aea0df9d39ddca, 0x89537f04b688c0db, 0x77338562e99c3ad5, 0xcbccaef91bd305e1, 0x2af868ee065db5af, 0x2174a74d6f268295, 0x625a44f8bde3a978, 0x133dac223d53f4eb, 0xbbfa805fd44b9aa3, 0x38eabb507c5d88fd, 0xd1ea5bd5e8546f00, 0x3b963d7b41ee151e, 0x953d4d3cea9a838b]"
  by (simp add: blake2b_round_def blake2b_G_masked blake2b_sigma_def rotr64_masked Let_def cong: let_weak_cong)

lemma b2_bs_round1: "blake2b_round [0x7362, 0x0, 0x0, 0x0, 0x0, 0x0, 0x0, 0x0, 0x0, 0x0, 0x0, 0x0, 0x0, 0x0, 0x0, 0x0] [0x86b7dbadffc60d5a, 0x622b1d19a8a08097, 0xe83fc1af7e79071f, 0x97aea0df9d39ddca, 0x89537f04b688c0db, 0x77338562e99c3ad5, 0xcbccaef91bd305e1, 0x2af868ee065db5af, 0x2174a74d6f268295, 0x625a44f8bde3a978, 0x133dac223d53f4eb, 0xbbfa805fd44b9aa3, 0x38eabb507c5d88fd, 0xd1ea5bd5e8546f00, 0x3b963d7b41ee151e, 0x953d4d3cea9a838b] 1 = [0xd41e6d57073b9954, 0x487de0a4f7a1882d, 0xaf6ed099ab55308f, 0x78ec08ddb853d15c, 0xb781aa1a814ecef1, 0x8af0a5a10c8bc460, 0x163bca0b05a96e84, 0x4a54d4f5b759638, 0x6fe3b6ef503f414f, 0x73be2f26b9733507, 0x67edaf530f9c809d, 0xea260c4887a42ff4, 0x25d9fb90adedae61, 0x574f41e5fcc9d2da, 0xf51c1140542ce33a, 0xc49bfd73affbbde4]"
  by (simp add: blake2b_round_def blake2b_G_masked blake2b_sigma_def rotr64_masked Let_def cong: let_weak_cong)

lemma b2_bs_round2: "blake2b_round [0x7362, 0x0, 0x0, 0x0, 0x0, 0x0, 0x0, 0x0, 0x0, 0x0, 0x0, 0x0, 0x0, 0x0, 0x0, 0x0] [0xd41e6d57073b9954, 0x487de0a4f7a1882d, 0xaf6ed099ab55308f, 0x78ec08ddb853d15c, 0xb781aa1a814ecef1, 0x8af0a5a10c8bc460, 0x163bca0b05a96e84, 0x4a54d4f5b759638, 0x6fe3b6ef503f414f, 0x73be2f26b9733507, 0x67edaf530f9c809d, 0xea260c4887a42ff4, 0x25d9fb90adedae61, 0x574f41e5fcc9d2da, 0xf51c1140542ce33a, 0xc49bfd73affbbde4] 2 = [0xbc7abc246a01cfc0, 0x974287b5f5ed6098, 0x1813e3f3475e5b6b, 0x993857e73dc35b47, 0xa89802d1195a1e24, 0x53c12c8c7806ee11, 0xcedb04b3a074b30e, 0xa12449e65c3c7c49, 0x1b6a251762ab675b, 0xe179d00bf07eb63b, 0x2d5f3f016bb34a53, 0xe3330edc0fff5bd3, 0x3d4f9fda24e97a2b, 0xb3262dc130a853c6, 0xf91aba0169af447d, 0x39f1b48b863eab4b]"
  by (simp add: blake2b_round_def blake2b_G_masked blake2b_sigma_def rotr64_masked Let_def cong: let_weak_cong)

lemma b2_bs_round3: "blake2b_round [0x7362, 0x0, 0x0, 0x0, 0x0, 0x0, 0x0, 0x0, 0x0, 0x0, 0x0, 0x0, 0x0, 0x0, 0x0, 0x0] [0xbc7abc246a01cfc0, 0x974287b5f5ed6098, 0x1813e3f3475e5b6b, 0x993857e73dc35b47, 0xa89802d1195a1e24, 0x53c12c8c7806ee11, 0xcedb04b3a074b30e, 0xa12449e65c3c7c49, 0x1b6a251762ab675b, 0xe179d00bf07eb63b, 0x2d5f3f016bb34a53, 0xe3330edc0fff5bd3, 0x3d4f9fda24e97a2b, 0xb3262dc130a853c6, 0xf91aba0169af447d, 0x39f1b48b863eab4b] 3 = [0x7b1f989539c89de6, 0xa50d276558f984a1, 0x7aa272eed63aab6d, 0x5e7a4ea0273c1d0e, 0xdc8442496605ddd2, 0xd7ad50c9835341f2, 0x9c87c9ad4844d259, 0x55e558a97269cfb7, 0xb58f9d8eb184bc03, 0x72bb478e96afba1, 0x3b82a1644bcd1d64, 0xdfc6d5ad358c9051, 0x615398e9fc06cfd7, 0x3a80c9eb744e5145, 0x902f05b1bef2442f, 0xc7da5ad611b32e9a]"
  by (simp add: blake2b_round_def blake2b_G_masked blake2b_sigma_def rotr64_masked Let_def cong: let_weak_cong)

lemma b2_bs_round4: "blake2b_round [0x7362, 0x0, 0x0, 0x0, 0x0, 0x0, 0x0, 0x0, 0x0, 0x0, 0x0, 0x0, 0x0, 0x0, 0x0, 0x0] [0x7b1f989539c89de6, 0xa50d276558f984a1, 0x7aa272eed63aab6d, 0x5e7a4ea0273c1d0e, 0xdc8442496605ddd2, 0xd7ad50c9835341f2, 0x9c87c9ad4844d259, 0x55e558a97269cfb7, 0xb58f9d8eb184bc03, 0x72bb478e96afba1, 0x3b82a1644bcd1d64, 0xdfc6d5ad358c9051, 0x615398e9fc06cfd7, 0x3a80c9eb744e5145, 0x902f05b1bef2442f, 0xc7da5ad611b32e9a] 4 = [0xded8439bc704dd83, 0x4a7c0c6d5bc79a88, 0x3eda970cd91b45f2, 0x16c874317fec9b8, 0x75bc7f97d9fe44e5, 0xb67ef6e4b026c457, 0xce5135f5bfd1421a, 0x8a265e2e03389f78, 0x7d7f8f5b57059c3d, 0xfc52fe200f15e1, 0xbbba63ace31edb9a, 0x4c0c259e13dbbae9, 0x7c8fb2233fdba50f, 0x6897272afc2e238c, 0xde97775734f137f9, 0x5089f90bc1aad668]"
  by (simp add: blake2b_round_def blake2b_G_masked blake2b_sigma_def rotr64_masked Let_def cong: let_weak_cong)

lemma b2_bs_round5: "blake2b_round [0x7362, 0x0, 0x0, 0x0, 0x0, 0x0, 0x0, 0x0, 0x0, 0x0, 0x0, 0x0, 0x0, 0x0, 0x0, 0x0] [0xded8439bc704dd83, 0x4a7c0c6d5bc79a88, 0x3eda970cd91b45f2, 0x16c874317fec9b8, 0x75bc7f97d9fe44e5, 0xb67ef6e4b026c457, 0xce5135f5bfd1421a, 0x8a265e2e03389f78, 0x7d7f8f5b57059c3d, 0xfc52fe200f15e1, 0xbbba63ace31edb9a, 0x4c0c259e13dbbae9, 0x7c8fb2233fdba50f, 0x6897272afc2e238c, 0xde97775734f137f9, 0x5089f90bc1aad668] 5 = [0x8a4ecf480bd70a48, 0xfae64b18f4ea59e8, 0xa84fa38798ca7808, 0x5dedaf8a2a73973f, 0xaa07c6dd4b17928f, 0xe22b148d63cc9d6b, 0xf87a2d15be54829a, 0xa2346ce9c9e2d302, 0xa882cfcdd53bc1ce, 0xda903445cb10bf1a, 0x9ddefe64a63fa8d3, 0xd1ae036b519a9224, 0xc1d970256010b0a7, 0x78ffa243ca470613, 0xfb7fe80e7d267208, 0xd22bc7f69d434833]"
  by (simp add: blake2b_round_def blake2b_G_masked blake2b_sigma_def rotr64_masked Let_def cong: let_weak_cong)

lemma b2_bs_round6: "blake2b_round [0x7362, 0x0, 0x0, 0x0, 0x0, 0x0, 0x0, 0x0, 0x0, 0x0, 0x0, 0x0, 0x0, 0x0, 0x0, 0x0] [0x8a4ecf480bd70a48, 0xfae64b18f4ea59e8, 0xa84fa38798ca7808, 0x5dedaf8a2a73973f, 0xaa07c6dd4b17928f, 0xe22b148d63cc9d6b, 0xf87a2d15be54829a, 0xa2346ce9c9e2d302, 0xa882cfcdd53bc1ce, 0xda903445cb10bf1a, 0x9ddefe64a63fa8d3, 0xd1ae036b519a9224, 0xc1d970256010b0a7, 0x78ffa243ca470613, 0xfb7fe80e7d267208, 0xd22bc7f69d434833] 6 = [0x26003ff9354ce12b, 0x2ddef956d42befca, 0xfb0c7c84e7e95d79, 0x56e3043376423464, 0x6fe99692d530b3cd, 0xabd9a1164beacd7a, 0x888fb9196e7e90dc, 0xb964990f7db6f1a5, 0xf8cff9a8e925ebf, 0x6bddbfed6d1c69a8, 0xcc73e5bbd617ff8, 0x2a900274cd6bf0de, 0xd3e18fe3e5ea0d74, 0x16dd49daef8e3fa7, 0xd3fe7c3a9f5a2109, 0x9ff650c6c1898036]"
  by (simp add: blake2b_round_def blake2b_G_masked blake2b_sigma_def rotr64_masked Let_def cong: let_weak_cong)

lemma b2_bs_round7: "blake2b_round [0x7362, 0x0, 0x0, 0x0, 0x0, 0x0, 0x0, 0x0, 0x0, 0x0, 0x0, 0x0, 0x0, 0x0, 0x0, 0x0] [0x26003ff9354ce12b, 0x2ddef956d42befca, 0xfb0c7c84e7e95d79, 0x56e3043376423464, 0x6fe99692d530b3cd, 0xabd9a1164beacd7a, 0x888fb9196e7e90dc, 0xb964990f7db6f1a5, 0xf8cff9a8e925ebf, 0x6bddbfed6d1c69a8, 0xcc73e5bbd617ff8, 0x2a900274cd6bf0de, 0xd3e18fe3e5ea0d74, 0x16dd49daef8e3fa7, 0xd3fe7c3a9f5a2109, 0x9ff650c6c1898036] 7 = [0x922e77584e7fe5ba, 0x687b9777a111b1de, 0x76238b0e9ce873b3, 0xfdce71d5f89e9ea8, 0x6ab676e57507fe1b, 0xe23f08596b87930d, 0xde43bd0d71afe587, 0xd868a75e06f20559, 0x35e798e30c484ed, 0x798ec30c8caa3d17, 0xac4d563b7fa9fdca, 0xdc0f93bf3a28af2, 0xe061e773f5f351d, 0x9e6e221766e34d5d, 0x6e37851a1c250e7a, 0xc91dd5239ecf5609]"
  by (simp add: blake2b_round_def blake2b_G_masked blake2b_sigma_def rotr64_masked Let_def cong: let_weak_cong)

lemma b2_bs_round8: "blake2b_round [0x7362, 0x0, 0x0, 0x0, 0x0, 0x0, 0x0, 0x0, 0x0, 0x0, 0x0, 0x0, 0x0, 0x0, 0x0, 0x0] [0x922e77584e7fe5ba, 0x687b9777a111b1de, 0x76238b0e9ce873b3, 0xfdce71d5f89e9ea8, 0x6ab676e57507fe1b, 0xe23f08596b87930d, 0xde43bd0d71afe587, 0xd868a75e06f20559, 0x35e798e30c484ed, 0x798ec30c8caa3d17, 0xac4d563b7fa9fdca, 0xdc0f93bf3a28af2, 0xe061e773f5f351d, 0x9e6e221766e34d5d, 0x6e37851a1c250e7a, 0xc91dd5239ecf5609] 8 = [0xfd329f8948669fbf, 0x5b36c1bfefb235e4, 0xa29d7d1e45b89411, 0x6b55b86b239f1988, 0x440c596ba2a9c750, 0xd40c16ff12b8516e, 0x15830e920b32ec8, 0x2cf2c0b248a506e9, 0x4b2594554a3bb69d, 0xeba324e11b4635ce, 0x891825eeaa33ce0c, 0x47dca2f855a2d8a, 0xbb284df80d05dfb7, 0x335e13b3b3bfe3cb, 0x12b5fae496b19f2b, 0x9b90ec454e889115]"
  by (simp add: blake2b_round_def blake2b_G_masked blake2b_sigma_def rotr64_masked Let_def cong: let_weak_cong)

lemma b2_bs_round9: "blake2b_round [0x7362, 0x0, 0x0, 0x0, 0x0, 0x0, 0x0, 0x0, 0x0, 0x0, 0x0, 0x0, 0x0, 0x0, 0x0, 0x0] [0xfd329f8948669fbf, 0x5b36c1bfefb235e4, 0xa29d7d1e45b89411, 0x6b55b86b239f1988, 0x440c596ba2a9c750, 0xd40c16ff12b8516e, 0x15830e920b32ec8, 0x2cf2c0b248a506e9, 0x4b2594554a3bb69d, 0xeba324e11b4635ce, 0x891825eeaa33ce0c, 0x47dca2f855a2d8a, 0xbb284df80d05dfb7, 0x335e13b3b3bfe3cb, 0x12b5fae496b19f2b, 0x9b90ec454e889115] 9 = [0x4f8c1ebadb495987, 0xfa7914905a2e45d2, 0x74ebbca0ade3b268, 0x5fa4f43fca335f2d, 0xd72af68afcd1e0c9, 0x56762fcfe59d2e24, 0x2283af6f754ea083, 0x791ed34560577285, 0x8b87b5d23f10f6c6, 0x65f1b6664ab9ad7b, 0xb86f5d81e28239f5, 0xa3d9c248eadff2af, 0x61bdb91e6e46e437, 0xe91983d2b552577a, 0xe3ea42b7dacd84c4, 0x9f13b03d933db014]"
  by (simp add: blake2b_round_def blake2b_G_masked blake2b_sigma_def rotr64_masked Let_def cong: let_weak_cong)

lemma b2_bs_round10: "blake2b_round [0x7362, 0x0, 0x0, 0x0, 0x0, 0x0, 0x0, 0x0, 0x0, 0x0, 0x0, 0x0, 0x0, 0x0, 0x0, 0x0] [0x4f8c1ebadb495987, 0xfa7914905a2e45d2, 0x74ebbca0ade3b268, 0x5fa4f43fca335f2d, 0xd72af68afcd1e0c9, 0x56762fcfe59d2e24, 0x2283af6f754ea083, 0x791ed34560577285, 0x8b87b5d23f10f6c6, 0x65f1b6664ab9ad7b, 0xb86f5d81e28239f5, 0xa3d9c248eadff2af, 0x61bdb91e6e46e437, 0xe91983d2b552577a, 0xe3ea42b7dacd84c4, 0x9f13b03d933db014] 10 = [0xa05062e07f81ec95, 0x44d0fd06223a49d, 0x9bcb3c84b71700bc, 0x10c1519e77f238b9, 0xbabc68b2031e79, 0x43681fe6f77d6e5c, 0x2fb69b087558e8eb, 0xfdc33b82dbbdc202, 0xe3098227d138aa2f, 0x8af813148d7f855c, 0x3849d7b1ca00634b, 0xd9bb54724ffc0c48, 0x17e35cc7c29ff0b8, 0xe8f20b700c3c3d91, 0x240cee3b048d6e44, 0x6063a59c877bf26f]"
  by (simp add: blake2b_round_def blake2b_G_masked blake2b_sigma_def rotr64_masked Let_def cong: let_weak_cong)

lemma b2_bs_round11: "blake2b_round [0x7362, 0x0, 0x0, 0x0, 0x0, 0x0, 0x0, 0x0, 0x0, 0x0, 0x0, 0x0, 0x0, 0x0, 0x0, 0x0] [0xa05062e07f81ec95, 0x44d0fd06223a49d, 0x9bcb3c84b71700bc, 0x10c1519e77f238b9, 0xbabc68b2031e79, 0x43681fe6f77d6e5c, 0x2fb69b087558e8eb, 0xfdc33b82dbbdc202, 0xe3098227d138aa2f, 0x8af813148d7f855c, 0x3849d7b1ca00634b, 0xd9bb54724ffc0c48, 0x17e35cc7c29ff0b8, 0xe8f20b700c3c3d91, 0x240cee3b048d6e44, 0x6063a59c877bf26f] 11 = [0xc769bf1f1bfe6e3, 0x67322635fed94ed2, 0x8932f023f781bfc8, 0xd5153ce5afd579aa, 0x696e07535f47c194, 0xf55a80719496f466, 0xf0b0fabfa9073dd7, 0xda735c403fe23cf4, 0xdbbea4de1f76b755, 0x45d1c5e132051522, 0xde10aa755461cf5f, 0x36e8264e0954e554, 0xb212599a9388e49e, 0xc09fffb1f03af29, 0x87228103979e72be, 0xeee8c3436477019a]"
  by (simp add: blake2b_round_def blake2b_G_masked blake2b_sigma_def rotr64_masked Let_def cong: let_weak_cong)

lemma upt_12: "[0..<12] = [0, 1, 2, 3, 4, 5, 6, 7, 8, 9, 10, 11 :: nat]"
  by code_simp

lemma b2_bs_rounds: "foldl (blake2b_round [0x7362, 0x0, 0x0, 0x0, 0x0, 0x0, 0x0, 0x0, 0x0, 0x0, 0x0, 0x0, 0x0, 0x0, 0x0, 0x0]) [0x6a09e667f2bdc928, 0xbb67ae8584caa73b, 0x3c6ef372fe94f82b, 0xa54ff53a5f1d36f1, 0x510e527fade682d1, 0x9b05688c2b3e6c1f, 0x1f83d9abfb41bd6b, 0x5be0cd19137e2179, 0x6a09e667f3bcc908, 0xbb67ae8584caa73b, 0x3c6ef372fe94f82b, 0xa54ff53a5f1d36f1, 0x510e527fade682d3, 0x9b05688c2b3e6c1f, 0xe07c265404be4294, 0x5be0cd19137e2179] [0..<12] = [0xc769bf1f1bfe6e3, 0x67322635fed94ed2, 0x8932f023f781bfc8, 0xd5153ce5afd579aa, 0x696e07535f47c194, 0xf55a80719496f466, 0xf0b0fabfa9073dd7, 0xda735c403fe23cf4, 0xdbbea4de1f76b755, 0x45d1c5e132051522, 0xde10aa755461cf5f, 0x36e8264e0954e554, 0xb212599a9388e49e, 0xc09fffb1f03af29, 0x87228103979e72be, 0xeee8c3436477019a]"
  by (simp only: upt_12 foldl.simps b2_bs_round0 b2_bs_round1 b2_bs_round2 b2_bs_round3 b2_bs_round4 b2_bs_round5 b2_bs_round6 b2_bs_round7 b2_bs_round8 b2_bs_round9 b2_bs_round10 b2_bs_round11)

lemma b2_bs_seed: "blake2b_seed ''bs'' = 0xbdc1d9481c74989e"
  by (simp add: blake2b_seed_def blake2b_256_def blake2b_blocks.simps [of _ _ "''bs''"] blake2b_F_def
      b2_bs_block b2_bs_init [unfolded blake2b_iv_def, simplified] b2_bs_rounds blake2b_iv_def Let_def cong: let_weak_cong)

text \<open>The compression of the one block of \<open>ab\<close>, round by round.\<close>

lemma b2_ab_block: "le_words 16 ''ab'' = [0x6261, 0x0, 0x0, 0x0, 0x0, 0x0, 0x0, 0x0, 0x0, 0x0, 0x0, 0x0, 0x0, 0x0, 0x0, 0x0]"
  by (simp add: numeral_eq_Suc)

lemma b2_ab_init: "blake2b_init [0x6a09e667f2bdc928, 0xbb67ae8584caa73b, 0x3c6ef372fe94f82b, 0xa54ff53a5f1d36f1, 0x510e527fade682d1, 0x9b05688c2b3e6c1f, 0x1f83d9abfb41bd6b, 0x5be0cd19137e2179] blake2b_iv 2 True = [0x6a09e667f2bdc928, 0xbb67ae8584caa73b, 0x3c6ef372fe94f82b, 0xa54ff53a5f1d36f1, 0x510e527fade682d1, 0x9b05688c2b3e6c1f, 0x1f83d9abfb41bd6b, 0x5be0cd19137e2179, 0x6a09e667f3bcc908, 0xbb67ae8584caa73b, 0x3c6ef372fe94f82b, 0xa54ff53a5f1d36f1, 0x510e527fade682d3, 0x9b05688c2b3e6c1f, 0xe07c265404be4294, 0x5be0cd19137e2179]"
  by (simp add: blake2b_init_def blake2b_iv_def Let_def cong: let_weak_cong)

lemma b2_ab_round0: "blake2b_round [0x6261, 0x0, 0x0, 0x0, 0x0, 0x0, 0x0, 0x0, 0x0, 0x0, 0x0, 0x0, 0x0, 0x0, 0x0, 0x0] [0x6a09e667f2bdc928, 0xbb67ae8584caa73b, 0x3c6ef372fe94f82b, 0xa54ff53a5f1d36f1, 0x510e527fade682d1, 0x9b05688c2b3e6c1f, 0x1f83d9abfb41bd6b, 0x5be0cd19137e2179, 0x6a09e667f3bcc908, 0xbb67ae8584caa73b, 0x3c6ef372fe94f82b, 0xa54ff53a5f1d36f1, 0x510e527fade682d3, 0x9b05688c2b3e6c1f, 0xe07c265404be4294, 0x5be0cd19137e2179] 0 = [0x86b7dbb236eafa59, 0x612b1dc8a7a1fdd1, 0xeb3fbd6981ea068e, 0x9d4c635ad93d3097, 0x416d71ca61e69419, 0xeb4622bf579ca90c, 0xd54f740cbf9d245d, 0xca183b74ca35e755, 0x5204934e0a63a41b, 0xb8e12311743c57b0, 0xdd077fc82b3dbc07, 0xb7bb6dd4076d07a3, 0x45aca9517d7ff5fd, 0xd07b58d594929093, 0xb4c9156584052554, 0x623e4ee3d8844aa7]"
  by (simp add: blake2b_round_def blake2b_G_masked blake2b_sigma_def rotr64_masked Let_def cong: let_weak_cong)

lemma b2_ab_round1: "blake2b_round [0x6261, 0x0, 0x0, 0x0, 0x0, 0x0, 0x0, 0x0, 0x0, 0x0, 0x0, 0x0, 0x0, 0x0, 0x0, 0x0] [0x86b7dbb236eafa59, 0x612b1dc8a7a1fdd1, 0xeb3fbd6981ea068e, 0x9d4c635ad93d3097, 0x416d71ca61e69419, 0xeb4622bf579ca90c, 0xd54f740cbf9d245d, 0xca183b74ca35e755, 0x5204934e0a63a41b, 0xb8e12311743c57b0, 0xdd077fc82b3dbc07, 0xb7bb6dd4076d07a3, 0x45aca9517d7ff5fd, 0xd07b58d594929093, 0xb4c9156584052554, 0x623e4ee3d8844aa7] 1 = [0x7d139fe60503b13a, 0x3d03c7f6e9ae1c90, 0x82542e89e6af5d0d, 0xcdc75083bfed49d0, 0xb29a968139259d36, 0x820d645ae74352b0, 0xb2db3a0057b33ca1, 0x1e4aba6a6fa6e882, 0xb71a9b9f116b6127, 0xd724a603b7cc52eb, 0x371a1dcd7acb7fb0, 0x19800341554c1a5f, 0x3cab367a5aed7fd, 0x763444ba3f9eb2cd, 0x30412e18812712a8, 0x635de2090e8d506b]"
  by (simp add: blake2b_round_def blake2b_G_masked blake2b_sigma_def rotr64_masked Let_def cong: let_weak_cong)

lemma b2_ab_round2: "blake2b_round [0x6261, 0x0, 0x0, 0x0, 0x0, 0x0, 0x0, 0x0, 0x0, 0x0, 0x0, 0x0, 0x0, 0x0, 0x0, 0x0] [0x7d139fe60503b13a, 0x3d03c7f6e9ae1c90, 0x82542e89e6af5d0d, 0xcdc75083bfed49d0, 0xb29a968139259d36, 0x820d645ae74352b0, 0xb2db3a0057b33ca1, 0x1e4aba6a6fa6e882, 0xb71a9b9f116b6127, 0xd724a603b7cc52eb, 0x371a1dcd7acb7fb0, 0x19800341554c1a5f, 0x3cab367a5aed7fd, 0x763444ba3f9eb2cd, 0x30412e18812712a8, 0x635de2090e8d506b] 2 = [0xd89980e1e7fc062b, 0xd29ac1040ee173df, 0x9e1aab2a801674b5, 0x45f24ba4ee99985b, 0x80f9bdeccb34c5cf, 0x711dffc5b65c7c3e, 0xd4b9ff3c267bd1a5, 0xdea0b218091b0720, 0x4e2f55693c604a8d, 0x6865f0ed19281b0f, 0x99c350370677df52, 0xe3d867c00bdaf210, 0xdad4f6aac2b1b983, 0x74e59629a34e096e, 0xfabdf4dd924c5857, 0xd0c37f1128037a8d]"
  by (simp add: blake2b_round_def blake2b_G_masked blake2b_sigma_def rotr64_masked Let_def cong: let_weak_cong)

lemma b2_ab_round3: "blake2b_round [0x6261, 0x0, 0x0, 0x0, 0x0, 0x0, 0x0, 0x0, 0x0, 0x0, 0x0, 0x0, 0x0, 0x0, 0x0, 0x0] [0xd89980e1e7fc062b, 0xd29ac1040ee173df, 0x9e1aab2a801674b5, 0x45f24ba4ee99985b, 0x80f9bdeccb34c5cf, 0x711dffc5b65c7c3e, 0xd4b9ff3c267bd1a5, 0xdea0b218091b0720, 0x4e2f55693c604a8d, 0x6865f0ed19281b0f, 0x99c350370677df52, 0xe3d867c00bdaf210, 0xdad4f6aac2b1b983, 0x74e59629a34e096e, 0xfabdf4dd924c5857, 0xd0c37f1128037a8d] 3 = [0x1f9b03512086e35e, 0xdfc4160bc6d38f59, 0x1532d6e2313cedcb, 0x222e75514877cab7, 0x7d250cb116bf28d9, 0x645cf7d89da3bc69, 0x14240b9c1df5e5b6, 0x2d053353628ef8a4, 0x835b72df638db343, 0x95dc70ca99a9d6b3, 0xc9e167027c612a8e, 0x67816136bb7b2f83, 0xb9a1c1e1dbe7a6e9, 0x7c1520b9d4b58e87, 0x8d125b22c5c35f11, 0x868d8d6231104f64]"
  by (simp add: blake2b_round_def blake2b_G_masked blake2b_sigma_def rotr64_masked Let_def cong: let_weak_cong)

lemma b2_ab_round4: "blake2b_round [0x6261, 0x0, 0x0, 0x0, 0x0, 0x0, 0x0, 0x0, 0x0, 0x0, 0x0, 0x0, 0x0, 0x0, 0x0, 0x0] [0x1f9b03512086e35e, 0xdfc4160bc6d38f59, 0x1532d6e2313cedcb, 0x222e75514877cab7, 0x7d250cb116bf28d9, 0x645cf7d89da3bc69, 0x14240b9c1df5e5b6, 0x2d053353628ef8a4, 0x835b72df638db343, 0x95dc70ca99a9d6b3, 0xc9e167027c612a8e, 0x67816136bb7b2f83, 0xb9a1c1e1dbe7a6e9, 0x7c1520b9d4b58e87, 0x8d125b22c5c35f11, 0x868d8d6231104f64] 4 = [0xde9c602dfd7bd3c8, 0x691ca4678bf15859, 0xfb34c09a71c15d0, 0x10e0b58c24f51cff, 0xa56cbb7b85e0e3d3, 0x8ab7805d96d88386, 0x5da881843e3492a3, 0xc8588ee7b29579e, 0xa4b1fabf7890f145, 0xa64903c73b489dd0, 0xdbc3552bf50c9033, 0x4b0fe6a00446ebd1, 0xa793bc433b88a264, 0x698a2fe6e742c58f, 0xb84289f36724e4f6, 0x8417786995af71fc]"
  by (simp add: blake2b_round_def blake2b_G_masked blake2b_sigma_def rotr64_masked Let_def cong: let_weak_cong)

lemma b2_ab_round5: "blake2b_round [0x6261, 0x0, 0x0, 0x0, 0x0, 0x0, 0x0, 0x0, 0x0, 0x0, 0x0, 0x0, 0x0, 0x0, 0x0, 0x0] [0xde9c602dfd7bd3c8, 0x691ca4678bf15859, 0xfb34c09a71c15d0, 0x10e0b58c24f51cff, 0xa56cbb7b85e0e3d3, 0x8ab7805d96d88386, 0x5da881843e3492a3, 0xc8588ee7b29579e, 0xa4b1fabf7890f145, 0xa64903c73b489dd0, 0xdbc3552bf50c9033, 0x4b0fe6a00446ebd1, 0xa793bc433b88a264, 0x698a2fe6e742c58f, 0xb84289f36724e4f6, 0x8417786995af71fc] 5 = [0xb3a5d0fe0ee6e7c9, 0xd46c4eef97a2309b, 0x52e97f8744c22771, 0xa771a007dbd6d318, 0x23d63984c13bb2b9, 0xcd70ceb8b83241f7, 0x22e59cc721e01b8b, 0xb70810627b025fbf, 0xb453ac3eb336e096, 0x808fe1d61090ffb8, 0x709c16dd72786cb3, 0xf472de65ac0e9c1f, 0xf92283929dbc2390, 0x487260153b9d8ad2, 0x8d3ffd0bae39dc6c, 0x23c8ef47378d31f7]"
  by (simp add: blake2b_round_def blake2b_G_masked blake2b_sigma_def rotr64_masked Let_def cong: let_weak_cong)

lemma b2_ab_round6: "blake2b_round [0x6261, 0x0, 0x0, 0x0, 0x0, 0x0, 0x0, 0x0, 0x0, 0x0, 0x0, 0x0, 0x0, 0x0, 0x0, 0x0] [0xb3a5d0fe0ee6e7c9, 0xd46c4eef97a2309b, 0x52e97f8744c22771, 0xa771a007dbd6d318, 0x23d63984c13bb2b9, 0xcd70ceb8b83241f7, 0x22e59cc721e01b8b, 0xb70810627b025fbf, 0xb453ac3eb336e096, 0x808fe1d61090ffb8, 0x709c16dd72786cb3, 0xf472de65ac0e9c1f, 0xf92283929dbc2390, 0x487260153b9d8ad2, 0x8d3ffd0bae39dc6c, 0x23c8ef47378d31f7] 6 = [0x240b438a43b11492, 0xa9188a4b7ead483f, 0x40a737168ea6821e, 0x8405715a77898ba2, 0x2c22ebb6b41ba7c8, 0xc912bdf51f78746, 0x65005e3682649e66, 0x29d72f1c35b28f00, 0x1449dac60cf86130, 0xcefb0547ff90974f, 0x5afc3cc815bcc23e, 0xc4a582e1661a974b, 0x5fa76e2a3fad2bed, 0xb805f837d3e93cb, 0xbca14413f796d191, 0xf3ba050c0905cce3]"
  by (simp add: blake2b_round_def blake2b_G_masked blake2b_sigma_def rotr64_masked Let_def cong: let_weak_cong)

lemma b2_ab_round7: "blake2b_round [0x6261, 0x0, 0x0, 0x0, 0x0, 0x0, 0x0, 0x0, 0x0, 0x0, 0x0, 0x0, 0x0, 0x0, 0x0, 0x0] [0x240b438a43b11492, 0xa9188a4b7ead483f, 0x40a737168ea6821e, 0x8405715a77898ba2, 0x2c22ebb6b41ba7c8, 0xc912bdf51f78746, 0x65005e3682649e66, 0x29d72f1c35b28f00, 0x1449dac60cf86130, 0xcefb0547ff90974f, 0x5afc3cc815bcc23e, 0xc4a582e1661a974b, 0x5fa76e2a3fad2bed, 0xb805f837d3e93cb, 0xbca14413f796d191, 0xf3ba050c0905cce3] 7 = [0xc9abd4ea39924a47, 0x6f5414a927830f3e, 0x5ae427721ffac8db, 0x9b7591ef39725ef1, 0xd708b1baa7420c5, 0xf47392ff1425ab1c, 0x5a05130d82658a45, 0x17d0054a48dd7cca, 0x6adfe240b03131be, 0xc70fda35d9a6017e, 0xe49d3c2b78b0cece, 0x519ad24d22ee5f78, 0x95b13974eea29c50, 0x217cf9ab74b4168e, 0x6eec9c76e43bda1, 0xd07b3cb2f398ee7d]"
  by (simp add: blake2b_round_def blake2b_G_masked blake2b_sigma_def rotr64_masked Let_def cong: let_weak_cong)

lemma b2_ab_round8: "blake2b_round [0x6261, 0x0, 0x0, 0x0, 0x0, 0x0, 0x0, 0x0, 0x0, 0x0, 0x0, 0x0, 0x0, 0x0, 0x0, 0x0] [0xc9abd4ea39924a47, 0x6f5414a927830f3e, 0x5ae427721ffac8db, 0x9b7591ef39725ef1, 0xd708b1baa7420c5, 0xf47392ff1425ab1c, 0x5a05130d82658a45, 0x17d0054a48dd7cca, 0x6adfe240b03131be, 0xc70fda35d9a6017e, 0xe49d3c2b78b0cece, 0x519ad24d22ee5f78, 0x95b13974eea29c50, 0x217cf9ab74b4168e, 0x6eec9c76e43bda1, 0xd07b3cb2f398ee7d] 8 = [0x38bdc587f7510e88, 0xef8517dfec683717, 0x8c63792afd043b79, 0x6f3c11931ede3019, 0xe1cae1a67d806b80, 0xe2ee4b559612cc3d, 0x7871fd714f8eced7, 0x976d2bab1439e747, 0x4b7a950a07efce01, 0xc7fee1715efefff6, 0xde88b1dca245f116, 0xd1eec511f5a87ff6, 0x604dcb5e9350c6d3, 0xa4920a2d5cf807f2, 0x11fbc148a0eea68e, 0xedec07d6e4c1768e]"
  by (simp add: blake2b_round_def blake2b_G_masked blake2b_sigma_def rotr64_masked Let_def cong: let_weak_cong)

lemma b2_ab_round9: "blake2b_round [0x6261, 0x0, 0x0, 0x0, 0x0, 0x0, 0x0, 0x0, 0x0, 0x0, 0x0, 0x0, 0x0, 0x0, 0x0, 0x0] [0x38bdc587f7510e88, 0xef8517dfec683717, 0x8c63792afd043b79, 0x6f3c11931ede3019, 0xe1cae1a67d806b80, 0xe2ee4b559612cc3d, 0x7871fd714f8eced7, 0x976d2bab1439e747, 0x4b7a950a07efce01, 0xc7fee1715efefff6, 0xde88b1dca245f116, 0xd1eec511f5a87ff6, 0x604dcb5e9350c6d3, 0xa4920a2d5cf807f2, 0x11fbc148a0eea68e, 0xedec07d6e4c1768e] 9 = [0xb3761969796cbe64, 0x90894286e6a77802, 0x585e468c4a845ee, 0x11c71b2455f93b48, 0xe7a718ae39f2fe2e, 0x4e3e8fd79bd3bde3, 0xe01d58d9ad2e3839, 0x224cbb87d3cb8008, 0x7b0879f6c6f2414, 0xa5afa1d75d6afbe8, 0x872c5d92722c7fc4, 0xede6a0c973a4d26a, 0xe5b8f4203a4e4671, 0x5479a847017f06c8, 0xc5aa1d3399d40f2f, 0x4c54bd4337271392]"
  by (simp add: blake2b_round_def blake2b_G_masked blake2b_sigma_def rotr64_masked Let_def cong: let_weak_cong)

lemma b2_ab_round10: "blake2b_round [0x6261, 0x0, 0x0, 0x0, 0x0, 0x0, 0x0, 0x0, 0x0, 0x0, 0x0, 0x0, 0x0, 0x0, 0x0, 0x0] [0xb3761969796cbe64, 0x90894286e6a77802, 0x585e468c4a845ee, 0x11c71b2455f93b48, 0xe7a718ae39f2fe2e, 0x4e3e8fd79bd3bde3, 0xe01d58d9ad2e3839, 0x224cbb87d3cb8008, 0x7b0879f6c6f2414, 0xa5afa1d75d6afbe8, 0x872c5d92722c7fc4, 0xede6a0c973a4d26a, 0xe5b8f4203a4e4671, 0x5479a847017f06c8, 0xc5aa1d3399d40f2f, 0x4c54bd4337271392] 10 = [0x857badc069652839, 0xc390b8f8b6b7c07, 0x10e15c173e551b47, 0x872130eb5c314329, 0xdd8d135354abaa74, 0x2c0cc2a22fac1776, 0xf8f26c935234302e, 0x7654514b29168df3, 0x69ac7bb808710405, 0x8503670a8990cd57, 0x57ca1b6a56a022fb, 0xe69ed6592378bd72, 0x5f67c23c8ed092c8, 0x492936530134734f, 0xe85887949f32267d, 0x5e8d2d8d9bc886ad]"
  by (simp add: blake2b_round_def blake2b_G_masked blake2b_sigma_def rotr64_masked Let_def cong: let_weak_cong)

lemma b2_ab_round11: "blake2b_round [0x6261, 0x0, 0x0, 0x0, 0x0, 0x0, 0x0, 0x0, 0x0, 0x0, 0x0, 0x0, 0x0, 0x0, 0x0, 0x0] [0x857badc069652839, 0xc390b8f8b6b7c07, 0x10e15c173e551b47, 0x872130eb5c314329, 0xdd8d135354abaa74, 0x2c0cc2a22fac1776, 0xf8f26c935234302e, 0x7654514b29168df3, 0x69ac7bb808710405, 0x8503670a8990cd57, 0x57ca1b6a56a022fb, 0xe69ed6592378bd72, 0x5f67c23c8ed092c8, 0x492936530134734f, 0xe85887949f32267d, 0x5e8d2d8d9bc886ad] 11 = [0x9da269be717e17ca, 0x9f84d82c6fdc7813, 0xa45005cc6645c530, 0x45c1d7f9eac40153, 0x1d53eb2317c995ce, 0xcd48c09825851030, 0xb46c489559617877, 0x926dce8f4eee18b0, 0x678dd126f49d8414, 0xfd6eb436907dee85, 0x5b4497c03b18f817, 0xb514ed208899d64c, 0xe8a79509761f7c2c, 0x3a60cb7daed9d9e1, 0xb1af07a9e2eddfdf, 0x1e21ed19923a920e]"
  by (simp add: blake2b_round_def blake2b_G_masked blake2b_sigma_def rotr64_masked Let_def cong: let_weak_cong)

lemma b2_ab_rounds: "foldl (blake2b_round [0x6261, 0x0, 0x0, 0x0, 0x0, 0x0, 0x0, 0x0, 0x0, 0x0, 0x0, 0x0, 0x0, 0x0, 0x0, 0x0]) [0x6a09e667f2bdc928, 0xbb67ae8584caa73b, 0x3c6ef372fe94f82b, 0xa54ff53a5f1d36f1, 0x510e527fade682d1, 0x9b05688c2b3e6c1f, 0x1f83d9abfb41bd6b, 0x5be0cd19137e2179, 0x6a09e667f3bcc908, 0xbb67ae8584caa73b, 0x3c6ef372fe94f82b, 0xa54ff53a5f1d36f1, 0x510e527fade682d3, 0x9b05688c2b3e6c1f, 0xe07c265404be4294, 0x5be0cd19137e2179] [0..<12] = [0x9da269be717e17ca, 0x9f84d82c6fdc7813, 0xa45005cc6645c530, 0x45c1d7f9eac40153, 0x1d53eb2317c995ce, 0xcd48c09825851030, 0xb46c489559617877, 0x926dce8f4eee18b0, 0x678dd126f49d8414, 0xfd6eb436907dee85, 0x5b4497c03b18f817, 0xb514ed208899d64c, 0xe8a79509761f7c2c, 0x3a60cb7daed9d9e1, 0xb1af07a9e2eddfdf, 0x1e21ed19923a920e]"
  by (simp only: upt_12 foldl.simps b2_ab_round0 b2_ab_round1 b2_ab_round2 b2_ab_round3 b2_ab_round4 b2_ab_round5 b2_ab_round6 b2_ab_round7 b2_ab_round8 b2_ab_round9 b2_ab_round10 b2_ab_round11)

lemma b2_ab_seed: "blake2b_seed ''ab'' = 0x90265eff775e5af6"
  by (simp add: blake2b_seed_def blake2b_256_def blake2b_blocks.simps [of _ _ "''ab''"] blake2b_F_def
      b2_ab_block b2_ab_init [unfolded blake2b_iv_def, simplified] b2_ab_rounds blake2b_iv_def Let_def cong: let_weak_cong)

text \<open>Rounding to float32: the relative error of one operation is at most \<open>2^-24\<close>.\<close>

lemma round_even_error: "\<bar>of_int (round_even y) - y\<bar> \<le> 1 / 2"
  unfolding round_even_def Let_def by (auto simp: abs_if) linarith+

lemma round_even_of_int: "round_even (of_int k) = k"
  by (simp add: round_even_def)

lemma f32_zero: "f32 0 = 0"
  by (simp add: f32_def)

lemma f32_one: "f32 1 = 1"
proof -
  have "(2::real) powr 23 = 2 ^ 23" by simp
  then have p: "(2::real) powr (- 23) = 1 / 2 ^ 23" by (simp add: powr_minus inverse_eq_divide)
  have "1 / (2::real) powr (- 23) = of_int 8388608" by (simp add: p)
  then have "round_even (1 / 2 powr (- 23)) = 8388608" by (simp only: round_even_of_int)
  then show ?thesis by (simp add: f32_def Let_def p)
qed

lemma f32_minus_one: "f32 (- 1) = - 1"
proof -
  have "(2::real) powr 23 = 2 ^ 23" by simp
  then have p: "(2::real) powr (- 23) = 1 / 2 ^ 23" by (simp add: powr_minus inverse_eq_divide)
  have "- 1 / (2::real) powr (- 23) = of_int (- 8388608)" by (simp add: p)
  then have "round_even (- 1 / 2 powr (- 23)) = - 8388608" by (simp only: round_even_of_int)
  then show ?thesis by (simp add: f32_def Let_def p)
qed

lemma f32_error: "\<bar>f32 x - x\<bar> \<le> \<bar>x\<bar> / 2 ^ 24"
proof (cases "x = 0")
  case True
  then show ?thesis by (simp add: f32_zero)
next
  case False
  define p :: real where "p = 2 powr of_int (\<lfloor>log 2 \<bar>x\<bar>\<rfloor> - 23)"
  have p_pos: "0 < p" by (simp add: p_def)
  have "(2::real) powr of_int \<lfloor>log 2 \<bar>x\<bar>\<rfloor> \<le> 2 powr log 2 \<bar>x\<bar>"
    by (rule powr_mono) simp_all
  then have le: "(2::real) powr of_int \<lfloor>log 2 \<bar>x\<bar>\<rfloor> \<le> \<bar>x\<bar>"
    using False by simp
  have "(2::real) powr 23 = 2 ^ 23" by simp
  then have "p = 2 powr of_int \<lfloor>log 2 \<bar>x\<bar>\<rfloor> / 2 ^ 23"
    by (simp add: p_def powr_diff)
  with le have p_le: "p \<le> \<bar>x\<bar> / 2 ^ 23" by (simp add: divide_right_mono)
  have "f32 x - x = (of_int (round_even (x / p)) - x / p) * p"
    using p_pos False by (simp add: f32_def p_def Let_def field_simps)
  then have "\<bar>f32 x - x\<bar> = \<bar>of_int (round_even (x / p)) - x / p\<bar> * p"
    using p_pos by (simp add: abs_mult)
  also have "\<dots> \<le> 1 / 2 * p"
    using round_even_error [of "x / p"] p_pos by (simp add: mult_right_mono)
  also have "\<dots> \<le> \<bar>x\<bar> / 2 ^ 24"
    using p_le by simp
  finally show ?thesis .
qed


lemma sum_squares_nonneg: "0 \<le> (\<Sum>x\<leftarrow>v. x * x :: real)"
  by (induction v) simp_all

lemma sum_squares_zero: "(\<Sum>x\<leftarrow>v. x * x :: real) = 0 \<Longrightarrow> v = replicate (length v) 0"
proof (induction v)
  case Nil
  then show ?case by simp
next
  case (Cons a v)
  have "0 \<le> a * a" by simp
  moreover have "0 \<le> (\<Sum>x\<leftarrow>v. x * x)" by (rule sum_squares_nonneg)
  moreover have "a * a + (\<Sum>x\<leftarrow>v. x * x) = 0" using Cons.prems by simp
  ultimately have "a * a = 0" "(\<Sum>x\<leftarrow>v. x * x) = 0" by linarith+
  with Cons.IH show ?case by simp
qed

lemma sum_squares_scaled: "(\<Sum>x\<leftarrow>v. (x / c) * (x / c) :: real) = (\<Sum>x\<leftarrow>v. x * x) / (c * c)"
  by (induction v) (simp_all add: add_divide_distrib)

lemma f32_lower: "0 < x \<Longrightarrow> (1 - 1 / 2 ^ 24) * x \<le> f32 x"
  using f32_error [of x] by (simp add: abs_if algebra_simps split: if_splits)

lemma f32_upper: "0 < x \<Longrightarrow> f32 x \<le> (1 + 1 / 2 ^ 24) * x"
  using f32_error [of x] by (simp add: abs_if algebra_simps split: if_splits)

lemma f32_pos: "0 < x \<Longrightarrow> 0 < f32 x"
proof -
  assume "0 < x"
  then have "0 < (1 - 1 / 2 ^ 24) * x" by simp
  with f32_lower [OF \<open>0 < x\<close>] show ?thesis by linarith
qed

lemma f32_square_upper: "f32 x * f32 x \<le> (1 + 1 / 2 ^ 24)\<^sup>2 * (x * x)"
proof -
  have "\<bar>f32 x\<bar> \<le> \<bar>x\<bar> + \<bar>x\<bar> / 2 ^ 24"
    using f32_error [of x] by linarith
  then have "\<bar>f32 x\<bar> \<le> (1 + 1 / 2 ^ 24) * \<bar>x\<bar>"
    by (simp add: algebra_simps)
  then have "\<bar>f32 x\<bar>\<^sup>2 \<le> ((1 + 1 / 2 ^ 24) * \<bar>x\<bar>)\<^sup>2"
    by (rule power_mono) simp
  then show ?thesis by (simp add: power2_eq_square algebra_simps)
qed

lemma f32_square_lower: "(1 - 1 / 2 ^ 24)\<^sup>2 * (x * x) \<le> f32 x * f32 x"
proof -
  have "\<bar>x\<bar> - \<bar>x\<bar> / 2 ^ 24 \<le> \<bar>f32 x\<bar>"
    using f32_error [of x] by linarith
  then have "(1 - 1 / 2 ^ 24) * \<bar>x\<bar> \<le> \<bar>f32 x\<bar>"
    by (simp add: algebra_simps)
  moreover have "0 \<le> (1 - 1 / 2 ^ 24) * \<bar>x\<bar>" by simp
  ultimately have "((1 - 1 / 2 ^ 24) * \<bar>x\<bar>)\<^sup>2 \<le> \<bar>f32 x\<bar>\<^sup>2"
    by (rule power_mono)
  then show ?thesis by (simp add: power2_eq_square algebra_simps)
qed

lemma sum_rounded_upper:
  "(\<Sum>x\<leftarrow>v. f32 (x / c) * f32 (x / c)) \<le> (1 + 1 / 2 ^ 24)\<^sup>2 * ((\<Sum>x\<leftarrow>v. x * x) / (c * c))"
proof -
  have "(\<Sum>x\<leftarrow>v. f32 (x / c) * f32 (x / c)) \<le> (1 + 1 / 2 ^ 24)\<^sup>2 * (\<Sum>x\<leftarrow>v. (x / c) * (x / c))"
  proof (induction v)
    case Nil
    then show ?case by simp
  next
    case (Cons a v)
    show ?case using Cons.IH f32_square_upper [of "a / c"] by (simp add: distrib_left)
  qed
  then show ?thesis by (simp only: sum_squares_scaled)
qed

lemma sum_rounded_lower:
  "(1 - 1 / 2 ^ 24)\<^sup>2 * ((\<Sum>x\<leftarrow>v. x * x) / (c * c)) \<le> (\<Sum>x\<leftarrow>v. f32 (x / c) * f32 (x / c))"
proof -
  have "(1 - 1 / 2 ^ 24)\<^sup>2 * (\<Sum>x\<leftarrow>v. (x / c) * (x / c)) \<le> (\<Sum>x\<leftarrow>v. f32 (x / c) * f32 (x / c))"
  proof (induction v)
    case Nil
    then show ?case by simp
  next
    case (Cons a v)
    show ?case using Cons.IH f32_square_lower [of "a / c"] by (simp add: distrib_left)
  qed
  then show ?thesis by (simp only: sum_squares_scaled)
qed

lemma norm_f32_pos: "0 < (\<Sum>x\<leftarrow>v. x * x) \<Longrightarrow> 0 < norm_f32 v"
  by (simp add: norm_f32_def f32_pos)

lemma norm_f32_zero: "(\<Sum>x\<leftarrow>v. x * x) = 0 \<Longrightarrow> norm_f32 v = 0"
  by (simp add: norm_f32_def f32_zero)

lemma norm_f32_square:
  assumes "0 < (\<Sum>x\<leftarrow>v. x * x)"
  shows "(1 - 1 / 2 ^ 24) ^ 3 * (\<Sum>x\<leftarrow>v. x * x) \<le> norm_f32 v * norm_f32 v"
    and "norm_f32 v * norm_f32 v \<le> (1 + 1 / 2 ^ 24) ^ 3 * (\<Sum>x\<leftarrow>v. x * x)"
proof -
  define S where "S = (\<Sum>x\<leftarrow>v. x * x)"
  define t where "t = sqrt (f32 S)"
  have S: "0 < S" using assms by (simp add: S_def)
  have fS: "0 < f32 S" using S by (rule f32_pos)
  have tt: "t * t = f32 S" using fS by (simp add: t_def)
  have n: "norm_f32 v = f32 t" by (simp add: norm_f32_def t_def S_def)
  have "(1 - 1 / 2 ^ 24)\<^sup>2 * (t * t) \<le> f32 t * f32 t" by (rule f32_square_lower)
  moreover have "(1 - 1 / 2 ^ 24)\<^sup>2 * ((1 - 1 / 2 ^ 24) * S) \<le> (1 - 1 / 2 ^ 24)\<^sup>2 * f32 S"
    using f32_lower [OF S] by (intro mult_left_mono) simp_all
  ultimately show "(1 - 1 / 2 ^ 24) ^ 3 * (\<Sum>x\<leftarrow>v. x * x) \<le> norm_f32 v * norm_f32 v"
    unfolding n tt S_def [symmetric] by (simp add: power3_eq_cube power2_eq_square)
  have "f32 t * f32 t \<le> (1 + 1 / 2 ^ 24)\<^sup>2 * (t * t)" by (rule f32_square_upper)
  moreover have "(1 + 1 / 2 ^ 24)\<^sup>2 * f32 S \<le> (1 + 1 / 2 ^ 24)\<^sup>2 * ((1 + 1 / 2 ^ 24) * S)"
    using f32_upper [OF S] by (intro mult_left_mono) simp_all
  ultimately show "norm_f32 v * norm_f32 v \<le> (1 + 1 / 2 ^ 24) ^ 3 * (\<Sum>x\<leftarrow>v. x * x)"
    unfolding n tt S_def [symmetric] by (simp add: power3_eq_cube power2_eq_square)
qed


lemma l2norm_rounded:
  assumes "0 < (\<Sum>x\<leftarrow>v. x * x)"
  shows "\<bar>l2norm (map (\<lambda>x. f32 (x / norm_f32 v)) v) - 1\<bar> \<le> 1 / 2 ^ 21"
proof -
  define S where "S = (\<Sum>x\<leftarrow>v. x * x)"
  define C where "C = norm_f32 v * norm_f32 v"
  define T where "T = (\<Sum>x\<leftarrow>v. f32 (x / norm_f32 v) * f32 (x / norm_f32 v))"
  have S: "0 < S" using assms by (simp add: S_def)
  have "0 < norm_f32 v" using assms by (rule norm_f32_pos)
  then have C: "0 < C" by (simp add: C_def)
  have lo: "(1 - 1 / 2 ^ 24) ^ 3 * S \<le> C" and hi: "C \<le> (1 + 1 / 2 ^ 24) ^ 3 * S"
    using norm_f32_square [OF assms] by (simp_all add: S_def C_def)
  have q_hi: "S / C \<le> 1 / (1 - 1 / 2 ^ 24) ^ 3"
    using lo C by (simp add: field_simps)
  have q_lo: "1 / (1 + 1 / 2 ^ 24) ^ 3 \<le> S / C"
    using hi C by (simp add: field_simps)
  have "T \<le> (1 + 1 / 2 ^ 24)\<^sup>2 * (S / C)"
    unfolding T_def S_def C_def by (rule sum_rounded_upper)
  also have "\<dots> \<le> (1 + 1 / 2 ^ 24)\<^sup>2 * (1 / (1 - 1 / 2 ^ 24) ^ 3)"
    using q_hi by (intro mult_left_mono) simp_all
  also have "\<dots> \<le> (1 + 1 / 2 ^ 21)\<^sup>2"
    by (simp add: power2_eq_square power3_eq_cube)
  finally have T_hi: "T \<le> (1 + 1 / 2 ^ 21)\<^sup>2" .
  have "(1 - 1 / 2 ^ 21)\<^sup>2 \<le> (1 - 1 / 2 ^ 24)\<^sup>2 * (1 / (1 + 1 / 2 ^ 24) ^ 3 :: real)"
    by (simp add: power2_eq_square power3_eq_cube)
  also have "\<dots> \<le> (1 - 1 / 2 ^ 24)\<^sup>2 * (S / C)"
    using q_lo by (intro mult_left_mono) simp_all
  also have "\<dots> \<le> T"
    unfolding T_def S_def C_def by (rule sum_rounded_lower)
  finally have T_lo: "(1 - 1 / 2 ^ 21)\<^sup>2 \<le> T" .
  have n: "l2norm (map (\<lambda>x. f32 (x / norm_f32 v)) v) = sqrt T"
    by (simp only: l2norm_def map_map comp_def T_def)
  have "sqrt T \<le> 1 + 1 / 2 ^ 21"
    using T_hi by (intro real_le_lsqrt) simp_all
  moreover have "1 - 1 / 2 ^ 21 \<le> sqrt T"
    using T_lo by (intro real_le_rsqrt)
  ultimately have "\<bar>sqrt T - 1\<bar> \<le> 1 / 2 ^ 21" by linarith
  then show ?thesis by (simp only: n)
qed

text \<open>What \<open>_hash_embed\<close> returns, in terms of the accumulated array.\<close>

lemma sum_squares_replicate: "(\<Sum>x\<leftarrow>replicate n (0 :: real). x * x) = 0"
  by (simp add: sum_list_replicate)

lemma sum_squares_pos:
  assumes "v \<noteq> replicate (length v) (0 :: real)"
  shows "0 < (\<Sum>x\<leftarrow>v. x * x)"
proof -
  have "(\<Sum>x\<leftarrow>v. x * x) \<noteq> 0" using assms sum_squares_zero by blast
  with sum_squares_nonneg [of v] show ?thesis by linarith
qed

lemma length_hash_accumulate: "length (hash_accumulate text d) = nat (if d > 0 then d else 384)"
  by (simp add: hash_accumulate_def Let_def length_hash_loop)

lemma hash_embed_blank: "strip text = [] \<Longrightarrow> hash_embed text d = replicate (nat (if d > 0 then d else 384)) 0"
  by (simp add: hash_embed_def Let_def)

lemma hash_embed_accumulate:
  "strip text \<noteq> [] \<Longrightarrow>
     hash_embed text d =
       (if norm_f32 (hash_accumulate text d) > 0
        then map (\<lambda>x. f32 (x / norm_f32 (hash_accumulate text d))) (hash_accumulate text d)
        else hash_accumulate text d)"
  by (simp add: hash_embed_def hash_accumulate_def Let_def)

lemma hash_embed_cancelled:
  assumes "strip text \<noteq> []" "hash_accumulate text d = replicate (nat (if d > 0 then d else 384)) 0"
  shows "hash_embed text d = replicate (nat (if d > 0 then d else 384)) 0"
proof -
  have "norm_f32 (hash_accumulate text d) = 0"
    by (rule norm_f32_zero) (simp only: assms(2) sum_squares_replicate)
  then show ?thesis using assms by (simp add: hash_embed_accumulate)
qed

lemma hash_embed_normalised:
  assumes "strip text \<noteq> []" "hash_accumulate text d \<noteq> replicate (nat (if d > 0 then d else 384)) 0"
  shows "0 < norm_f32 (hash_accumulate text d)"
    and "hash_embed text d =
      map (\<lambda>x. f32 (x / norm_f32 (hash_accumulate text d))) (hash_accumulate text d)"
    and "\<bar>l2norm (hash_embed text d) - 1\<bar> \<le> 1 / 2 ^ 21"
    and "hash_embed text d \<noteq> replicate (nat (if d > 0 then d else 384)) 0"
proof -
  define a where "a = hash_accumulate text d"
  have "a \<noteq> replicate (length a) 0"
    using assms(2) by (simp add: a_def length_hash_accumulate)
  then have S: "0 < (\<Sum>x\<leftarrow>a. x * x)" by (rule sum_squares_pos)
  then show pos: "0 < norm_f32 (hash_accumulate text d)"
    unfolding a_def by (rule norm_f32_pos)
  with assms(1) show eq: "hash_embed text d =
      map (\<lambda>x. f32 (x / norm_f32 (hash_accumulate text d))) (hash_accumulate text d)"
    by (simp add: hash_embed_accumulate)
  from l2norm_rounded [OF S] show near: "\<bar>l2norm (hash_embed text d) - 1\<bar> \<le> 1 / 2 ^ 21"
    by (simp only: eq a_def)
  show "hash_embed text d \<noteq> replicate (nat (if d > 0 then d else 384)) 0"
  proof
    assume "hash_embed text d = replicate (nat (if d > 0 then d else 384)) 0"
    then have "l2norm (hash_embed text d) = 0"
      by (simp only: l2norm_def sum_squares_replicate real_sqrt_zero)
    with near show False by simp
  qed
qed

text \<open>Two short texts, evaluated.\<close>

lemma strip_bs: "strip ''bs'' = ''bs''"
  by (simp add: strip_def rstrip_def space1_def space2_def space3_def)

lemma strip_ab: "strip ''ab'' = ''ab''"
  by (simp add: strip_def rstrip_def space1_def space2_def space3_def)

lemma strip_blank: "strip '' '' = []"
  by (simp add: strip_def rstrip_def space1_def)

lemma replicate_update_same: "(replicate n x)[i := x] = replicate n x"
  by (induction n arbitrary: i) (simp_all split: nat.splits)

lemma hash_accumulate_bs: "hash_accumulate ''bs'' 384 = replicate 384 0"
proof -
  have s1: "(0xbdc1d9481c74989e :: u64) * 6364136223846793005 + 1 + of_char CHR ''b'' = 0x213c90bc942b3629"
    by simp
  have s2: "(0x213c90bc942b3629 :: u64) * 6364136223846793005 + 1 + of_char CHR ''s'' = 0x9362a9172d53dca9"
    by simp
  have i1: "unat (0x213c90bc942b3629 :: u64) mod 384 = 297" by simp
  have i2: "unat (0x9362a9172d53dca9 :: u64) mod 384 = 297" by simp
  have g1: "drop_bit 63 (0x213c90bc942b3629 :: u64) = 0" by simp
  have g2: "drop_bit 63 (0x9362a9172d53dca9 :: u64) \<noteq> 0" by simp
  have "hash_loop 384 ''bs'' 0xbdc1d9481c74989e (replicate 384 0) =
      (replicate 384 0)[297 := f32 (0 + 1), 297 := f32 (f32 (0 + 1) + - 1)]"
    by (simp only: hash_loop.simps Let_def s1 s2 i1 i2 g1 g2 if_True if_False) simp
  also have "\<dots> = replicate 384 0"
    by (simp add: f32_one f32_zero replicate_update_same)
  finally show ?thesis
    by (simp add: hash_accumulate_def strip_bs b2_bs_seed Let_def del: hash_loop.simps)
qed

lemma hash_accumulate_ab: "hash_accumulate ''ab'' 4 = [- 1, 0, 0, 1]"
proof -
  have s1: "(0x90265eff775e5af6 :: u64) * 6364136223846793005 + 1 + of_char CHR ''a'' = 0xc41e6149c3e407a0"
    by simp
  have s2: "(0xc41e6149c3e407a0 :: u64) * 6364136223846793005 + 1 + of_char CHR ''b'' = 0x41ab3f417efdb783"
    by simp
  have i1: "unat (0xc41e6149c3e407a0 :: u64) mod 4 = 0" by simp
  have i2: "unat (0x41ab3f417efdb783 :: u64) mod 4 = 3" by simp
  have g1: "drop_bit 63 (0xc41e6149c3e407a0 :: u64) \<noteq> 0" by simp
  have g2: "drop_bit 63 (0x41ab3f417efdb783 :: u64) = 0" by simp
  have r: "replicate 4 (0 :: real) = [0, 0, 0, 0]" by (simp add: numeral_eq_Suc)
  have "hash_loop 4 ''ab'' 0x90265eff775e5af6 [0, 0, 0, 0] =
      [0, 0, 0, 0][0 := f32 (0 + - 1), 3 := f32 (0 + 1)]"
    by (simp only: hash_loop.simps Let_def s1 s2 i1 i2 g1 g2 if_True if_False) simp
  also have "\<dots> = [- 1, 0, 0, 1]"
    by (simp add: f32_one f32_minus_one numeral_eq_Suc)
  finally show ?thesis
    by (simp add: hash_accumulate_def strip_ab b2_ab_seed r Let_def del: hash_loop.simps)
qed

text \<open>
  Claim C5, as stated, fails: for the two-letter text \<open>bs\<close> and the default dimension 384
  both bytes land on index 297 with opposite signs, the accumulated vector is zero, the
  division is skipped, and the embedding of a non-empty text is the all-zero vector, of
  norm 0.
\<close>

theorem hash_embed_bs_is_zero:
  "strip ''bs'' \<noteq> [] \<and> hash_embed ''bs'' 384 = replicate 384 0 \<and> l2norm (hash_embed ''bs'' 384) = 0 \<and>
   l2norm (hash_embed ''bs'' 384) \<noteq> 1"
proof -
  have s: "strip ''bs'' \<noteq> []" by (simp add: strip_bs)
  have "hash_accumulate ''bs'' 384 = replicate (nat (if (384 :: int) > 0 then 384 else 384)) 0"
    by (simp add: hash_accumulate_bs)
  with s have e: "hash_embed ''bs'' 384 = replicate 384 0"
    using hash_embed_cancelled [of "''bs''" 384] by simp
  have "l2norm (replicate 384 0) = 0"
    by (simp only: l2norm_def sum_squares_replicate real_sqrt_zero)
  with s e show ?thesis by simp
qed

text \<open>
  Claim C5, amended. In hash mode \<open>embed\<close> is a function of the text and the configured
  dimension alone, and the vector has the effective dimension. For a text that is empty
  or whitespace-only it is the all-zero vector. For any other text it depends on the
  array accumulated by the loop. If the signed contributions cancel, so that this array
  is all zero, the result is the all-zero vector. Otherwise the float32 norm of the
  array is positive, the result is the array with every entry divided by that norm and
  rounded to float32, its Euclidean norm is within \<open>2^-21\<close> of 1, and it is not the
  all-zero vector.
\<close>

theorem hash_embed_properties:
  "length (hash_embed text d) = nat (if d > 0 then d else 384) \<and>
   (strip text = [] \<longrightarrow> hash_embed text d = replicate (nat (if d > 0 then d else 384)) 0) \<and>
   (strip text \<noteq> [] \<and> hash_accumulate text d = replicate (nat (if d > 0 then d else 384)) 0 \<longrightarrow>
      hash_embed text d = replicate (nat (if d > 0 then d else 384)) 0) \<and>
   (strip text \<noteq> [] \<and> hash_accumulate text d \<noteq> replicate (nat (if d > 0 then d else 384)) 0 \<longrightarrow>
      0 < norm_f32 (hash_accumulate text d) \<and>
      hash_embed text d =
        map (\<lambda>x. f32 (x / norm_f32 (hash_accumulate text d))) (hash_accumulate text d) \<and>
      \<bar>l2norm (hash_embed text d) - 1\<bar> \<le> 1 / 2 ^ 21 \<and>
      hash_embed text d \<noteq> replicate (nat (if d > 0 then d else 384)) 0) \<and>
   (mode e = ''hash'' \<and> mode e2 = ''hash'' \<and> dim_n e = dim_n e2 \<longrightarrow>
      fst (Embedder_embed env e text) = fst (Embedder_embed env2 e2 text))"
proof (intro conjI impI)
  show "length (hash_embed text d) = nat (if d > 0 then d else 384)"
    by (rule length_hash_embed)
  show "hash_embed text d = replicate (nat (if d > 0 then d else 384)) 0" if "strip text = []"
    using that by (rule hash_embed_blank)
  show "hash_embed text d = replicate (nat (if d > 0 then d else 384)) 0"
    if "strip text \<noteq> [] \<and> hash_accumulate text d = replicate (nat (if d > 0 then d else 384)) 0"
    using that by (simp add: hash_embed_cancelled)
  show "fst (Embedder_embed env e text) = fst (Embedder_embed env2 e2 text)"
    if "mode e = ''hash'' \<and> mode e2 = ''hash'' \<and> dim_n e = dim_n e2"
    using that by (simp add: Embedder_embed_def)
next
  assume a: "strip text \<noteq> [] \<and> hash_accumulate text d \<noteq> replicate (nat (if d > 0 then d else 384)) 0"
  then have s: "strip text \<noteq> []"
    and c: "hash_accumulate text d \<noteq> replicate (nat (if d > 0 then d else 384)) 0"
    by simp_all
  show "0 < norm_f32 (hash_accumulate text d)"
    using s c by (rule hash_embed_normalised(1))
  show "hash_embed text d =
      map (\<lambda>x. f32 (x / norm_f32 (hash_accumulate text d))) (hash_accumulate text d)"
    using s c by (rule hash_embed_normalised(2))
  show "\<bar>l2norm (hash_embed text d) - 1\<bar> \<le> 1 / 2 ^ 21"
    using s c by (rule hash_embed_normalised(3))
  show "hash_embed text d \<noteq> replicate (nat (if d > 0 then d else 384)) 0"
    using s c by (rule hash_embed_normalised(4))
qed

theorem hash_embed_properties_witness:
  "strip '' '' = [] \<and> length (hash_embed '' '' 4) = 4 \<and> hash_embed '' '' 4 = [0, 0, 0, 0] \<and>
   strip ''bs'' \<noteq> [] \<and> hash_accumulate ''bs'' 384 = replicate 384 0 \<and>
   hash_embed ''bs'' 384 = replicate 384 0 \<and>
   strip ''ab'' \<noteq> [] \<and> hash_accumulate ''ab'' 4 = [- 1, 0, 0, 1] \<and>
   hash_accumulate ''ab'' 4 \<noteq> [0, 0, 0, 0] \<and>
   0 < norm_f32 [- 1, 0, 0, 1] \<and>
   hash_embed ''ab'' 4 = map (\<lambda>x. f32 (x / norm_f32 [- 1, 0, 0, 1])) [- 1, 0, 0, 1] \<and>
   \<bar>l2norm (hash_embed ''ab'' 4) - 1\<bar> \<le> 1 / 2 ^ 21 \<and>
   hash_embed ''ab'' 4 \<noteq> [0, 0, 0, 0] \<and>
   mode (hash_embedder 4) = ''hash'' \<and>
   fst (Embedder_embed demo_env (hash_embedder 4) ''ab'') =
     fst (Embedder_embed down_env ((hash_embedder 4)\<lparr>model_loaded := True\<rparr>) ''ab'')"
proof -
  have m: "mode (hash_embedder 4) = ''hash''"
    "mode ((hash_embedder 4)\<lparr>model_loaded := True\<rparr>) = ''hash''"
    "dim_n (hash_embedder 4) = dim_n ((hash_embedder 4)\<lparr>model_loaded := True\<rparr>)"
    by (simp_all add: hash_embedder_def)
  have r: "replicate (nat 4) (0 :: real) = [0, 0, 0, 0]"
    by (simp add: numeral_eq_Suc)
  have blank: "strip '' '' = [] \<and> length (hash_embed '' '' 4) = 4 \<and> hash_embed '' '' 4 = [0, 0, 0, 0]"
    using strip_blank r hash_embed_properties [of "'' ''" 4] by simp
  have bs: "strip ''bs'' \<noteq> [] \<and> hash_accumulate ''bs'' 384 = replicate 384 0 \<and>
      hash_embed ''bs'' 384 = replicate 384 0"
    using strip_bs hash_accumulate_bs hash_embed_properties [of "''bs''" 384] by simp
  have r2: "replicate (nat (if (4 :: int) > 0 then 4 else 384)) (0 :: real) = [0, 0, 0, 0]"
    by (simp add: numeral_eq_Suc)
  have p: "strip ''ab'' \<noteq> [] \<and>
      hash_accumulate ''ab'' 4 \<noteq> replicate (nat (if (4 :: int) > 0 then 4 else 384)) 0"
    by (simp only: strip_ab hash_accumulate_ab r2) simp
  have q0: "0 < norm_f32 (hash_accumulate ''ab'' 4) \<and>
      hash_embed ''ab'' 4 =
        map (\<lambda>x. f32 (x / norm_f32 (hash_accumulate ''ab'' 4))) (hash_accumulate ''ab'' 4) \<and>
      \<bar>l2norm (hash_embed ''ab'' 4) - 1\<bar> \<le> 1 / 2 ^ 21 \<and>
      hash_embed ''ab'' 4 \<noteq> replicate (nat (if (4 :: int) > 0 then 4 else 384)) 0"
    using p hash_embed_properties [of "''ab''" 4] by blast
  note q = q0 [unfolded hash_accumulate_ab r2]
  have ab0: "strip ''ab'' \<noteq> [] \<and> hash_accumulate ''ab'' 4 = [- 1, 0, 0, 1] \<and>
      hash_accumulate ''ab'' 4 \<noteq> [0, 0, 0, 0]"
    by (simp add: strip_ab hash_accumulate_ab)
  have same: "fst (Embedder_embed demo_env (hash_embedder 4) ''ab'') =
      fst (Embedder_embed down_env ((hash_embedder 4)\<lparr>model_loaded := True\<rparr>) ''ab'')"
    using m hash_embed_properties [of "''ab''" 4 "hash_embedder 4"
        "(hash_embedder 4)\<lparr>model_loaded := True\<rparr>" demo_env down_env]
    by simp
  from blank bs ab0 q same m(1) show ?thesis by blast
qed

end
